theory Spec2Isabelle
  imports Complex_Main "HOL-Library.AList"
begin

section \<open>Massive data collector: collection, extraction, consolidation, validation\<close>

text \<open>
  A shallow embedding of \<^verbatim>\<open>src/services/massive_data_collector.py\<close>
  (class \<^verbatim>\<open>MassiveDataCollector\<close>).

  Conventions of the model.
  \<^item> A Python \<^verbatim>\<open>str\<close> is a \<open>string\<close>; a character stands for its code point,
    so the texts of the model are those over code points below 256. On these,
    \<^verbatim>\<open>\d\<close> is the ten ASCII digits and \<^verbatim>\<open>\s\<close> / \<^verbatim>\<open>str.split()\<close> whitespace is
    the set \<open>is_space\<close> below.
  \<^item> A Python \<^verbatim>\<open>float\<close> is an exact rational (\<open>rat\<close>): every score is a sum of
    small integers, which floating point represents exactly; a quotient
    (an average, a rate) is the exact quotient, without the rounding of the last bit.
  \<^item> An exception is a value of \<open>exn\<close>; code that can raise returns \<open>exn + 'a\<close>.
  \<^item> \<^verbatim>\<open>self.collection_stats\<close> is threaded explicitly through every method
    that touches it.
  \<^item> A dictionary whose keys the code computes or iterates is an association list
    (\<open>map_of\<close> looks a key up, \<open>AList.update\<close> assigns, insertion order is kept);
    a dictionary with a fixed set of keys is a record, a key that may be absent
    an \<open>option\<close> field. The validator is modelled a second time on a
    dictionary whose values are of any type (\<open>json\<close>), where reading a value of
    the wrong type raises.
\<close>

subsection \<open>Python values used by the collector\<close>

datatype exn =
    KeyError string
  | IndexError
  | AttributeError
  | TypeError
  | ZeroDivisionError
  | TimeoutError
  | OtherError string

text \<open>Payloads the collector only passes through (context, navigation data).\<close>

datatype json =
    JNull
  | JBool bool
  | JNum rat
  | JStr string
  | JList "json list"
  | JObj "(string \<times> json) list"

text \<open>\<^verbatim>\<open>d.get(key, default)\<close> on a dictionary with string values.\<close>

definition dict_get :: "(string \<times> 'v) list \<Rightarrow> string \<Rightarrow> 'v \<Rightarrow> 'v" where
  "dict_get d k dflt = (case map_of d k of Some v \<Rightarrow> v | None \<Rightarrow> dflt)"

text \<open>\<^verbatim>\<open>d[key]\<close>: raises \<^verbatim>\<open>KeyError\<close> on a missing key.\<close>

definition dict_item :: "(string \<times> 'v) list \<Rightarrow> string \<Rightarrow> exn + 'v" where
  "dict_item d k = (case map_of d k of Some v \<Rightarrow> Inr v | None \<Rightarrow> Inl (KeyError k))"

text \<open>\<^verbatim>\<open>o.get(key, default)\<close> on an optional field.\<close>

definition get_or :: "'v option \<Rightarrow> 'v \<Rightarrow> 'v" where
  "get_or o_v dflt = (case o_v of Some v \<Rightarrow> v | None \<Rightarrow> dflt)"

text \<open>Truth value of \<^verbatim>\<open>d.get(key)\<close> for a string or list valued key.\<close>

definition truthy :: "'a list option \<Rightarrow> bool" where
  "truthy o_v = (case o_v of Some v \<Rightarrow> v \<noteq> [] | None \<Rightarrow> False)"

text \<open>\<^verbatim>\<open>xs[i]\<close> for \<open>i \<ge> 0\<close>: raises \<^verbatim>\<open>IndexError\<close> out of range.\<close>

definition py_index :: "'a list \<Rightarrow> nat \<Rightarrow> exn + 'a" where
  "py_index xs i = (if i < length xs then Inr (xs ! i) else Inl IndexError)"

text \<open>\<^verbatim>\<open>a / b\<close>: raises \<^verbatim>\<open>ZeroDivisionError\<close> when \<open>b = 0\<close>.\<close>

definition py_truediv :: "rat \<Rightarrow> rat \<Rightarrow> exn + rat" where
  "py_truediv a b = (if b = 0 then Inl ZeroDivisionError else Inr (a / b))"

subsection \<open>Character classes and splitting\<close>

definition is_digit :: "char \<Rightarrow> bool" where
  "is_digit c = (48 \<le> (of_char c :: nat) \<and> (of_char c :: nat) \<le> 57)"

definition is_space :: "char \<Rightarrow> bool" where
  "is_space c = ((of_char c :: nat) \<in> set [9, 10, 11, 12, 13, 28, 29, 30, 31, 32, 133, 160])"

text \<open>
  \<^verbatim>\<open>content.split()\<close>: the maximal runs of non-whitespace characters, in order.
  The first argument is the word read so far.
\<close>

fun split_ws :: "string \<Rightarrow> string \<Rightarrow> string list" where
  "split_ws w [] = (if w = [] then [] else [w])"
| "split_ws w (c # cs) =
     (if is_space c then (if w = [] then split_ws [] cs else w # split_ws [] cs)
      else split_ws (w @ [c]) cs)"

definition py_split :: "string \<Rightarrow> string list" where
  "py_split s = split_ws [] s"

text \<open>
  \<^verbatim>\<open>s.split(sep)\<close> for a one-character separator: the pieces between the
  separators, empty pieces included; the result is never empty.
\<close>

fun split_on :: "char \<Rightarrow> string \<Rightarrow> string \<Rightarrow> string list" where
  "split_on sep w [] = [w]"
| "split_on sep w (c # cs) =
     (if c = sep then w # split_on sep [] cs else split_on sep (w @ [c]) cs)"

definition py_split_sep :: "string \<Rightarrow> char \<Rightarrow> string list" where
  "py_split_sep s sep = split_on sep [] s"

subsection \<open>The two regular expressions of the quality score\<close>

text \<open>
  \<^verbatim>\<open>re.findall(p, s)\<close> for a pattern without capturing groups whose matches are
  not empty: scan from the left; where the pattern matches, keep the match and
  resume right after it; where it does not, move one character on. The matcher
  \<open>m\<close> gives the match of the pattern at the start of its argument. The number is
  how many characters of the last match are still to be skipped.
\<close>

fun findall_from :: "(string \<Rightarrow> string option) \<Rightarrow> nat \<Rightarrow> string \<Rightarrow> string list" where
  "findall_from m k [] = []"
| "findall_from m (Suc k) (c # cs) = findall_from m k cs"
| "findall_from m 0 (c # cs) =
     (case m (c # cs) of
        None \<Rightarrow> findall_from m 0 cs
      | Some tok \<Rightarrow> tok # findall_from m (length tok - 1) cs)"

definition re_findall :: "(string \<Rightarrow> string option) \<Rightarrow> string \<Rightarrow> string list" where
  "re_findall m s = findall_from m 0 s"

text \<open>
  \<^verbatim>\<open>\d+(?:\.\d+)?%?\<close>: the longest run of digits, then a dot with the longest
  run of digits after it when there is at least one, then a percent sign when
  there is one. Every part after the first is optional, so the greedy choice
  is the match.
\<close>

definition match_number :: "string \<Rightarrow> string option" where
  "match_number s =
     (let ds = takeWhile is_digit s; r1 = dropWhile is_digit s in
      if ds = [] then None
      else
        let frac = (case r1 of
                      [] \<Rightarrow> []
                    | c # r \<Rightarrow>
                        if c = CHR ''.'' \<and> takeWhile is_digit r \<noteq> []
                        then c # takeWhile is_digit r else []);
            r2 = drop (length frac) r1;
            pct = (case r2 of [] \<Rightarrow> [] | c # r \<Rightarrow> if c = CHR ''%'' then [c] else [])
        in Some (ds @ frac @ pct))"

text \<open>
  \<^verbatim>\<open>R\$\s*[\d,\.]+\<close>: the two characters \<^verbatim>\<open>R$\<close>, all the whitespace that
  follows, then the longest non-empty run of digits, commas and dots. The
  character class and whitespace are disjoint, so giving whitespace back never
  helps.
\<close>

definition is_money_char :: "char \<Rightarrow> bool" where
  "is_money_char c = (is_digit c \<or> c = CHR '','' \<or> c = CHR ''.'')"

definition match_money :: "string \<Rightarrow> string option" where
  "match_money s =
     (case s of
        r # d # rest \<Rightarrow>
          if r = CHR ''R'' \<and> d = CHR ''$'' then
            (let ws = takeWhile is_space rest;
                 body = takeWhile is_money_char (dropWhile is_space rest)
             in if body = [] then None else Some (r # d # ws @ body))
          else None
      | _ \<Rightarrow> None)"

subsection \<open>\<^verbatim>\<open>_calculate_content_quality\<close>\<close>

text \<open>
  The task dictionary \<^verbatim>\<open>url_data\<close> has string values (\<^verbatim>\<open>url\<close>, \<^verbatim>\<open>title\<close>,
  \<^verbatim>\<open>source\<close>, \<^verbatim>\<open>snippet\<close>). The score starts at \<^verbatim>\<open>0.0\<close> and is added to
  four times, as in the source.
\<close>

definition calculate_content_quality :: "string \<Rightarrow> (string \<times> string) list \<Rightarrow> rat" where
  "calculate_content_quality content url_data =
     (let score = 0;
          score = (if length content \<ge> 2000 then score + 25
                   else if length content \<ge> 1000 then score + 15
                   else score + 5);
          words = py_split content;
          score = (if length words \<ge> 300 then score + 25
                   else if length words \<ge> 150 then score + 15
                   else score + 5);
          numbers = re_findall match_number content;
          money_values = re_findall match_money content;
          score = score + min (of_nat (length numbers) * 2) 20;
          score = score + min (of_nat (length money_values) * 3) 15;
          source = dict_get url_data ''source'' '''';
          score = (if source = ''exa'' then score + 10
                   else if source = ''websailor'' then score + 8
                   else if source \<in> set [''google'', ''serper''] then score + 6
                   else score)
      in min score 100)"

text \<open>The score as the specification words it, component by component.\<close>

definition size_component :: "nat \<Rightarrow> rat" where
  "size_component n_chars = (if n_chars \<ge> 2000 then 25 else if n_chars \<ge> 1000 then 15 else 5)"

definition density_component :: "nat \<Rightarrow> rat" where
  "density_component n_words = (if n_words \<ge> 300 then 25 else if n_words \<ge> 150 then 15 else 5)"

definition data_evidence_component :: "nat \<Rightarrow> nat \<Rightarrow> rat" where
  "data_evidence_component n_numeric n_currency =
     min (2 * of_nat n_numeric) 20 + min (3 * of_nat n_currency) 15"

definition source_trust_component :: "string \<Rightarrow> rat" where
  "source_trust_component tag =
     (if tag = ''exa'' then 10
      else if tag = ''websailor'' then 8
      else if tag = ''google'' \<or> tag = ''serper'' then 6
      else 0)"

definition spec_quality_score :: "string \<Rightarrow> string \<Rightarrow> rat" where
  "spec_quality_score txt tag =
     max 0 (min 100
       (size_component (length txt)
        + density_component (length (py_split txt))
        + data_evidence_component
            (length (re_findall match_number txt)) (length (re_findall match_money txt))
        + source_trust_component tag))"

subsection \<open>Data of a run\<close>

text \<open>
  \<^verbatim>\<open>self.collection_stats\<close>, as \<^verbatim>\<open>__init__\<close> lays it out. The module creates one
  collector, \<^verbatim>\<open>massive_data_collector = MassiveDataCollector()\<close>, so \<open>init_stats\<close>
  is the state before the first call of \<^verbatim>\<open>collect_massive_data\<close> only.
\<close>

record collection_stats =
  web_sources :: nat
  social_sources :: nat
  youtube_sources :: nat
  total_content_chars :: nat
  extraction_time :: rat
  sources_by_provider :: "(string \<times> nat) list"
  quality_scores :: "rat list"

definition init_stats :: collection_stats where
  "init_stats =
     \<lparr>web_sources = 0, social_sources = 0, youtube_sources = 0, total_content_chars = 0,
      extraction_time = 0, sources_by_provider = [], quality_scores = []\<rparr>"

text \<open>
  A web search result: the keys the collector reads, and the others
  (\<^verbatim>\<open>score\<close>, \<^verbatim>\<open>published_date\<close>, \<^verbatim>\<open>exa_id\<close>) as they come.
\<close>

record search_hit =
  hit_title :: "string option"
  hit_url :: "string option"
  hit_snippet :: "string option"
  hit_source :: "string option"
  hit_extra :: "(string \<times> json) list"

text \<open>An item of the Exa client's response.\<close>

record exa_item =
  exa_title :: "string option"
  exa_url :: "string option"
  exa_text :: "string option"
  exa_score :: "json option"
  exa_publishedDate :: "string option"
  exa_id :: "string option"

text \<open>A post or video of a social platform, and the dictionary a platform search returns.\<close>

record social_item =
  item_title :: "string option"
  item_url :: "string option"
  item_text :: "string option"
  item_caption :: "string option"
  item_platform :: "string option"
  item_simulated :: "bool option"

record platform_result =
  pr_success :: "bool option"
  pr_platform :: "string option"
  pr_results :: "social_item list option"
  pr_total_found :: "nat option"
  pr_query :: "string option"

text \<open>The empty dictionary \<^verbatim>\<open>{}\<close> in the place of a platform result.\<close>

definition empty_platform_result :: platform_result where
  "empty_platform_result =
     \<lparr>pr_success = None, pr_platform = None, pr_results = None, pr_total_found = None,
      pr_query = None\<rparr>"

text \<open>What the deep navigator returns.\<close>

record fonte =
  fonte_url :: "string option"
  fonte_title :: "string option"

record conteudo_consolidado =
  fontes_detalhadas :: "fonte list option"
  insights_principais :: "json list option"
  tendencias_identificadas :: "json list option"
  oportunidades_descobertas :: "json list option"

record websailor_result =
  ws_navegacao_profunda :: "json option"
  ws_conteudo_consolidado :: "conteudo_consolidado option"

definition empty_conteudo_consolidado :: conteudo_consolidado where
  "empty_conteudo_consolidado =
     \<lparr>fontes_detalhadas = None, insights_principais = None, tendencias_identificadas = None,
      oportunidades_descobertas = None\<rparr>"

definition empty_websailor_result :: websailor_result where
  "empty_websailor_result = \<lparr>ws_navegacao_profunda = None, ws_conteudo_consolidado = None\<rparr>"

text \<open>
  \<^verbatim>\<open>web_results\<close> and \<^verbatim>\<open>social_results\<close>: the code computes their keys
  (\<^verbatim>\<open>f'{provider}_results'\<close>, \<^verbatim>\<open>f'{platform}_data'\<close>) and iterates their
  values, so the per-provider part is an association list in insertion order; the
  total is the last key.
\<close>

record web_results =
  provider_results :: "(string \<times> search_hit list) list"
  total_web_sources :: nat

record social_results =
  platform_data :: "(string \<times> platform_result) list"
  total_social_sources :: nat

text \<open>The dictionary \<^verbatim>\<open>_extract_single_content\<close> returns for a page it keeps.\<close>

record extracted_document =
  doc_success :: bool
  doc_url :: string
  doc_title :: string
  doc_source :: string
  doc_snippet :: string
  doc_content :: string
  doc_content_length :: nat
  doc_word_count :: nat
  doc_quality_score :: rat
  doc_extraction_index :: nat
  doc_extracted_at :: string

record extraction_stats =
  es_total_chars :: nat
  es_avg_content_length :: rat
  es_sources_by_type :: "(string \<times> nat) list"

record extraction_result =
  total_urls_found :: nat
  total_content_extracted :: nat
  extraction_success_rate :: rat
  extracted_content :: "extracted_document list"
  extraction_stats :: extraction_stats

text \<open>
  A formatted string literal, piece by piece: literal text, and the values set into
  it with their format specification (empty for a plain \<^verbatim>\<open>{x}\<close>). The digits a
  number is printed with are left to the reader of the message. \<open>Fmt_json\<close> is a
  value of any type, as it is found in a dictionary.
\<close>

datatype fpart =
    Lit string
  | Fmt_str string
  | Fmt_int int string
  | Fmt_float rat string
  | Fmt_json json string

type_synonym fstring = "fpart list"

subsection \<open>The snapshot and the validation report\<close>

text \<open>
  \<^verbatim>\<open>massive_json\<close>. The validator reads it with \<^verbatim>\<open>.get(key, default)\<close>, so a
  section and a statistic may be absent; the consolidator fills every one.
  \<^verbatim>\<open>preparacao_para_analises\<close> is looked up under computed keys and is an
  association list.
\<close>

record metadata_coleta_massiva =
  md_session_id :: string
  md_query_original :: string
  md_context_original :: json
  md_timestamp_coleta :: string
  md_versao_sistema :: string
  md_tipo_coleta :: string
  garantia_dados_reais :: bool
  zero_simulacao :: bool

record estatisticas_coleta =
  total_fontes_web :: "nat option"
  total_fontes_sociais :: "nat option"
  total_fontes_youtube :: "nat option"
  total_caracteres_extraidos :: "nat option"
  tempo_coleta_segundos :: "rat option"
  fontes_por_provedor :: "(string \<times> nat) list option"
  taxa_sucesso_extracao :: "rat option"
  qualidade_media_conteudo :: "rat option"

record dados_web_completos =
  busca_exa_neural :: "search_hit list"
  busca_google_custom :: "search_hit list"
  busca_serper_api :: "search_hit list"
  busca_bing_scraping :: "search_hit list"
  busca_duckduckgo_scraping :: "search_hit list"
  total_resultados_web :: nat

record dados_sociais_completos =
  youtube_completo :: platform_result
  twitter_completo :: platform_result
  linkedin_completo :: platform_result
  instagram_completo :: platform_result
  tiktok_completo :: platform_result
  facebook_completo :: platform_result
  total_posts_sociais :: nat

record dados_websailor_profundos =
  dw_navegacao_profunda :: json
  dw_conteudo_consolidado :: conteudo_consolidado
  dw_insights_principais :: "json list"
  dw_tendencias_identificadas :: "json list"
  dw_oportunidades_descobertas :: "json list"

record conteudo_extraido_massivo =
  total_paginas_extraidas :: nat
  conteudo_completo :: "extracted_document list"
  estatisticas_extracao :: extraction_stats
  taxa_sucesso :: rat

record massive_json =
  mj_metadata_coleta_massiva :: "metadata_coleta_massiva option"
  mj_estatisticas_coleta :: "estatisticas_coleta option"
  mj_dados_web_completos :: "dados_web_completos option"
  mj_dados_sociais_completos :: "dados_sociais_completos option"
  mj_dados_websailor_profundos :: "dados_websailor_profundos option"
  mj_conteudo_extraido_massivo :: "conteudo_extraido_massivo option"
  mj_insights_consolidados_automaticos :: "fstring list option"
  mj_preparacao_para_analises :: "(string \<times> bool) list option"

text \<open>The empty dictionary \<^verbatim>\<open>{}\<close> as a snapshot.\<close>

definition empty_estatisticas_coleta :: estatisticas_coleta where
  "empty_estatisticas_coleta =
     \<lparr>total_fontes_web = None, total_fontes_sociais = None, total_fontes_youtube = None,
      total_caracteres_extraidos = None, tempo_coleta_segundos = None,
      fontes_por_provedor = None, taxa_sucesso_extracao = None,
      qualidade_media_conteudo = None\<rparr>"

definition empty_massive_json :: massive_json where
  "empty_massive_json =
     \<lparr>mj_metadata_coleta_massiva = None, mj_estatisticas_coleta = None,
      mj_dados_web_completos = None, mj_dados_sociais_completos = None,
      mj_dados_websailor_profundos = None, mj_conteudo_extraido_massivo = None,
      mj_insights_consolidados_automaticos = None, mj_preparacao_para_analises = None\<rparr>"

record validation =
  dados_suficientes_para_analise :: bool
  qualidade_aprovada :: bool
  modulos_viabilizados :: "string list"
  problemas_identificados :: "fstring list"
  recomendacoes :: "string list"

subsection \<open>\<^verbatim>\<open>_validate_massive_data\<close>\<close>

definition modulos_possiveis :: "string list" where
  "modulos_possiveis =
     [''avatar_ultra_detalhado'',
      ''drivers_mentais_customizados'',
      ''provas_visuais_arsenal'',
      ''sistema_anti_objecao'',
      ''pre_pitch_invisivel'',
      ''predicoes_futuro'',
      ''analise_concorrencia'',
      ''posicionamento_estrategico'']"

text \<open>
  The loop over \<^verbatim>\<open>modulos_possiveis\<close>: a module is appended when
  \<^verbatim>\<open>preparacao.get(f'dados_prontos_para_{modulo.split("_")[0]}', False)\<close> holds.
  The last argument is \<^verbatim>\<open>validation['modulos_viabilizados']\<close> so far.
\<close>

fun viabilizar :: "(string \<times> bool) list \<Rightarrow> string list \<Rightarrow> string list \<Rightarrow> exn + string list" where
  "viabilizar preparacao [] viabilizados = Inr viabilizados"
| "viabilizar preparacao (modulo' # rest) viabilizados =
     (case py_index (py_split_sep modulo' (CHR ''_'')) 0 of
        Inl e \<Rightarrow> Inl e
      | Inr prefix \<Rightarrow>
          if dict_get preparacao (''dados_prontos_para_'' @ prefix) False
          then viabilizar preparacao rest (viabilizados @ [modulo'])
          else viabilizar preparacao rest viabilizados)"

text \<open>
  The validator on a snapshot of the shape the consolidator writes: sections and
  statistics absent or of their own type. The validator on any dictionary,
  where a section or a statistic can be a value of any type, is
  \<open>validate_massive_data_dict\<close> below.
\<close>

definition validate_massive_data :: "massive_json \<Rightarrow> exn + validation" where
  "validate_massive_data mj =
     (let validation =
            \<lparr>dados_suficientes_para_analise = False,
             qualidade_aprovada = False,
             modulos_viabilizados = [],
             problemas_identificados = [],
             recomendacoes = []\<rparr>;
          total_content =
            get_or (total_caracteres_extraidos
                      (get_or (mj_estatisticas_coleta mj) empty_estatisticas_coleta)) 0;
          validation =
            (if total_content \<ge> 50000
             then validation\<lparr>dados_suficientes_para_analise := True\<rparr>
             else validation\<lparr>problemas_identificados :=
                    problemas_identificados validation
                    @ [[Lit ''Volume insuficiente: '', Fmt_int (int total_content) [],
                        Lit '' < 50000 caracteres'']]\<rparr>);
          avg_quality =
            get_or (qualidade_media_conteudo
                      (get_or (mj_estatisticas_coleta mj) empty_estatisticas_coleta)) 0;
          validation =
            (if avg_quality \<ge> 60
             then validation\<lparr>qualidade_aprovada := True\<rparr>
             else validation\<lparr>problemas_identificados :=
                    problemas_identificados validation
                    @ [[Lit ''Qualidade baixa: '', Fmt_float avg_quality [], Lit '' < 60'']]\<rparr>);
          preparacao = get_or (mj_preparacao_para_analises mj) []
      in case viabilizar preparacao modulos_possiveis (modulos_viabilizados validation) of
           Inl e \<Rightarrow> Inl e
         | Inr viabilizados \<Rightarrow>
             (let validation = validation\<lparr>modulos_viabilizados := viabilizados\<rparr>;
                  validation =
                    (if \<not> dados_suficientes_para_analise validation
                     then validation\<lparr>recomendacoes := recomendacoes validation
                            @ [''Execute nova coleta com mais APIs configuradas'']\<rparr>
                     else validation);
                  validation =
                    (if \<not> qualidade_aprovada validation
                     then validation\<lparr>recomendacoes := recomendacoes validation
                            @ [''Configure APIs premium para melhor qualidade'']\<rparr>
                     else validation);
                  validation =
                    (if length (modulos_viabilizados validation) < 6
                     then validation\<lparr>recomendacoes := recomendacoes validation
                            @ [''Dados insuficientes para alguns m'' @ [CHR 0xF3]
                               @ ''dulos - configure mais fontes'']\<rparr>
                     else validation)
              in Inr validation))"

subsection \<open>\<^verbatim>\<open>_validate_massive_data\<close> on any dictionary\<close>

text \<open>
  The argument is annotated \<^verbatim>\<open>Dict[str, Any]\<close>: a dictionary whose values are
  of any type. On such values the operations of the validator can raise.
  \<^item> \<^verbatim>\<open>obj.get(key, default)\<close>: only a dictionary has the method; on \<^verbatim>\<open>None\<close>,
    a number, a string or a list the attribute access raises \<^verbatim>\<open>AttributeError\<close>.
  \<^item> \<^verbatim>\<open>value >= n\<close> for a number \<open>n\<close>: defined on numbers and on booleans
    (\<^verbatim>\<open>True\<close> is 1, \<^verbatim>\<open>False\<close> is 0); on anything else it raises \<^verbatim>\<open>TypeError\<close>.
  \<^item> The truth value of \<^verbatim>\<open>if value:\<close> is defined on every value.
\<close>

definition json_get :: "json \<Rightarrow> string \<Rightarrow> json \<Rightarrow> exn + json" where
  "json_get obj k dflt =
     (case obj of JObj d \<Rightarrow> Inr (dict_get d k dflt) | _ \<Rightarrow> Inl AttributeError)"

definition json_ge :: "json \<Rightarrow> rat \<Rightarrow> exn + bool" where
  "json_ge v n =
     (case v of
        JNum q \<Rightarrow> Inr (q \<ge> n)
      | JBool b \<Rightarrow> Inr ((if b then 1 else 0) \<ge> n)
      | _ \<Rightarrow> Inl TypeError)"

definition json_truthy :: "json \<Rightarrow> bool" where
  "json_truthy v =
     (case v of
        JNull \<Rightarrow> False
      | JBool b \<Rightarrow> b
      | JNum q \<Rightarrow> q \<noteq> 0
      | JStr s \<Rightarrow> s \<noteq> []
      | JList xs \<Rightarrow> xs \<noteq> []
      | JObj d \<Rightarrow> d \<noteq> [])"

text \<open>
  The loop over the modules. The method \<^verbatim>\<open>preparacao.get\<close> is looked up before
  its argument is computed.
\<close>

fun viabilizar_dict :: "json \<Rightarrow> string list \<Rightarrow> string list \<Rightarrow> exn + string list" where
  "viabilizar_dict preparacao [] viabilizados = Inr viabilizados"
| "viabilizar_dict preparacao (modulo' # rest) viabilizados =
     (case preparacao of
        JObj d \<Rightarrow>
          (case py_index (py_split_sep modulo' (CHR ''_'')) 0 of
             Inl e \<Rightarrow> Inl e
           | Inr prefix \<Rightarrow>
               if json_truthy (dict_get d (''dados_prontos_para_'' @ prefix) (JBool False))
               then viabilizar_dict preparacao rest (viabilizados @ [modulo'])
               else viabilizar_dict preparacao rest viabilizados)
      | _ \<Rightarrow> Inl AttributeError)"

definition validate_massive_data_dict :: "(string \<times> json) list \<Rightarrow> exn + validation" where
  "validate_massive_data_dict massive_json =
     (let validation =
            \<lparr>dados_suficientes_para_analise = False,
             qualidade_aprovada = False,
             modulos_viabilizados = [],
             problemas_identificados = [],
             recomendacoes = []\<rparr>
      in
      case json_get (dict_get massive_json ''estatisticas_coleta'' (JObj []))
             ''total_caracteres_extraidos'' (JNum 0) of
        Inl e \<Rightarrow> Inl e
      | Inr total_content \<Rightarrow>
      (case json_ge total_content 50000 of
        Inl e \<Rightarrow> Inl e
      | Inr enough \<Rightarrow>
      (let validation =
             (if enough
              then validation\<lparr>dados_suficientes_para_analise := True\<rparr>
              else validation\<lparr>problemas_identificados :=
                     problemas_identificados validation
                     @ [[Lit ''Volume insuficiente: '', Fmt_json total_content [],
                         Lit '' < 50000 caracteres'']]\<rparr>)
       in
       case json_get (dict_get massive_json ''estatisticas_coleta'' (JObj []))
              ''qualidade_media_conteudo'' (JNum 0) of
         Inl e \<Rightarrow> Inl e
       | Inr avg_quality \<Rightarrow>
       (case json_ge avg_quality 60 of
         Inl e \<Rightarrow> Inl e
       | Inr good \<Rightarrow>
       (let validation =
              (if good
               then validation\<lparr>qualidade_aprovada := True\<rparr>
               else validation\<lparr>problemas_identificados :=
                      problemas_identificados validation
                      @ [[Lit ''Qualidade baixa: '', Fmt_json avg_quality [], Lit '' < 60'']]\<rparr>);
            preparacao = dict_get massive_json ''preparacao_para_analises'' (JObj [])
        in
        case viabilizar_dict preparacao modulos_possiveis (modulos_viabilizados validation) of
          Inl e \<Rightarrow> Inl e
        | Inr viabilizados \<Rightarrow>
            (let validation = validation\<lparr>modulos_viabilizados := viabilizados\<rparr>;
                 validation =
                   (if \<not> dados_suficientes_para_analise validation
                    then validation\<lparr>recomendacoes := recomendacoes validation
                           @ [''Execute nova coleta com mais APIs configuradas'']\<rparr>
                    else validation);
                 validation =
                   (if \<not> qualidade_aprovada validation
                    then validation\<lparr>recomendacoes := recomendacoes validation
                           @ [''Configure APIs premium para melhor qualidade'']\<rparr>
                    else validation);
                 validation =
                   (if length (modulos_viabilizados validation) < 6
                    then validation\<lparr>recomendacoes := recomendacoes validation
                           @ [''Dados insuficientes para alguns m'' @ [CHR 0xF3]
                              @ ''dulos - configure mais fontes'']\<rparr>
                    else validation)
             in Inr validation))))))"

subsection \<open>The collaborators\<close>

text \<open>
  What the collector calls and does not define: the search clients, the content
  extractor, the step store (\<^verbatim>\<open>salvar_etapa\<close>, \<^verbatim>\<open>salvar_erro\<close>), the file
  system and the clock. Each is a function of what it is called with; one that
  can raise returns \<open>Inl\<close> of the exception, and a step store call returns
  \<open>Some\<close> of the exception it raises, \<open>None\<close> when it returns. A call that does
  not come back within the timeout of \<^verbatim>\<open>future.result\<close> is a call that raises
  \<open>TimeoutError\<close>: the collector treats both the same way. The tasks of a
  thread pool are run one after the other, in the order they were submitted.
  \<^item> \<open>exa_search\<close> gives \<^verbatim>\<open>exa_response['results']\<close>, or \<open>None\<close> when the
    response is empty or has no such key.
  \<^item> \<open>salvar_etapa\<close> is given the name of the step; what is stored is not
    modelled.
  \<^item> \<open>salvar_erro\<close> is given the name, the exception and the query of its
    \<^verbatim>\<open>contexto\<close>.
  \<^item> \<open>write_json_file\<close> stands for \<^verbatim>\<open>os.makedirs\<close>, \<^verbatim>\<open>open\<close>, \<^verbatim>\<open>json.dump\<close> and
    \<^verbatim>\<open>os.path.getsize\<close> in \<^verbatim>\<open>_save_massive_json\<close>, given the path and the snapshot.
  \<^item> \<open>now_iso\<close> is \<^verbatim>\<open>datetime.now().isoformat()\<close>, \<open>now_stamp\<close> the
    \<^verbatim>\<open>strftime("%Y%m%d_%H%M%S")\<close> of the file name, \<open>elapsed\<close> the seconds
    between the two readings of \<^verbatim>\<open>time.time()\<close>.
\<close>

record env =
  exa_is_available :: bool
  exa_search :: "string \<Rightarrow> exn + exa_item list option"
  search_google :: "string \<Rightarrow> nat \<Rightarrow> exn + search_hit list"
  search_serper :: "string \<Rightarrow> nat \<Rightarrow> exn + search_hit list"
  search_bing :: "string \<Rightarrow> nat \<Rightarrow> exn + search_hit list"
  search_youtube :: "string \<Rightarrow> nat \<Rightarrow> exn + platform_result"
  search_twitter :: "string \<Rightarrow> nat \<Rightarrow> exn + platform_result"
  search_linkedin :: "string \<Rightarrow> nat \<Rightarrow> exn + platform_result"
  search_instagram :: "string \<Rightarrow> nat \<Rightarrow> exn + platform_result"
  navigate_and_research_deep :: "string \<Rightarrow> json \<Rightarrow> nat \<Rightarrow> nat \<Rightarrow> string \<Rightarrow> exn + websailor_result"
  extract_content :: "string \<Rightarrow> exn + string option"
  salvar_etapa :: "string \<Rightarrow> exn option"
  salvar_erro :: "string \<Rightarrow> exn \<Rightarrow> string \<Rightarrow> exn option"
  write_json_file :: "string \<Rightarrow> massive_json \<Rightarrow> exn option"
  now_iso :: string
  now_stamp :: string
  elapsed :: rat

subsection \<open>Web search: \<^verbatim>\<open>_search_*_massive\<close> and \<^verbatim>\<open>_collect_massive_web_data\<close>\<close>

definition exa_hit :: "exa_item \<Rightarrow> search_hit" where
  "exa_hit item =
     \<lparr>hit_title = Some (get_or (exa_title item) []),
      hit_url = Some (get_or (exa_url item) []),
      hit_snippet = Some (take 300 (get_or (exa_text item) [])),
      hit_source = Some ''exa'',
      hit_extra =
        [(''score'', get_or (exa_score item) (JNum 0)),
         (''published_date'', JStr (get_or (exa_publishedDate item) [])),
         (''exa_id'', JStr (get_or (exa_id item) []))]\<rparr>"

definition search_exa_massive :: "env \<Rightarrow> string \<Rightarrow> search_hit list" where
  "search_exa_massive e query =
     (case exa_search e (query @ '' Brasil 2024 mercado tend'' @ [CHR 0xEA]
                          @ ''ncias oportunidades'') of
        Inl err \<Rightarrow> []
      | Inr None \<Rightarrow> []
      | Inr (Some items) \<Rightarrow> map exa_hit items)"

definition search_google_massive :: "env \<Rightarrow> string \<Rightarrow> search_hit list" where
  "search_google_massive e query =
     (case search_google e (query @ '' Brasil 2024'') 30 of Inl err \<Rightarrow> [] | Inr hits \<Rightarrow> hits)"

definition search_serper_massive :: "env \<Rightarrow> string \<Rightarrow> search_hit list" where
  "search_serper_massive e query =
     (case search_serper e (query @ '' Brasil 2024'') 30 of Inl err \<Rightarrow> [] | Inr hits \<Rightarrow> hits)"

definition search_bing_massive :: "env \<Rightarrow> string \<Rightarrow> search_hit list" where
  "search_bing_massive e query =
     (case search_bing e (query @ '' Brasil 2024'') 30 of Inl err \<Rightarrow> [] | Inr hits \<Rightarrow> hits)"

definition search_duckduckgo_massive :: "env \<Rightarrow> string \<Rightarrow> search_hit list" where
  "search_duckduckgo_massive e query = []"

text \<open>
  The futures of \<^verbatim>\<open>_collect_massive_web_data\<close>, in the order they are submitted:
  Exa only when its client is available.
\<close>

definition web_futures :: "env \<Rightarrow> string \<Rightarrow> (string \<times> search_hit list) list" where
  "web_futures e query =
     (if exa_is_available e then [(''exa'', search_exa_massive e query)] else [])
     @ [(''google'', search_google_massive e query),
        (''serper'', search_serper_massive e query),
        (''bing'', search_bing_massive e query),
        (''duckduckgo'', search_duckduckgo_massive e query)]"

text \<open>The loop that collects the futures: one provider's results into both dictionaries.\<close>

fun collect_web_results ::
  "(string \<times> search_hit list) list \<Rightarrow> web_results \<Rightarrow> collection_stats
     \<Rightarrow> web_results \<times> collection_stats" where
  "collect_web_results [] web s = (web, s)"
| "collect_web_results ((provider, results) # rest) web s =
     collect_web_results rest
       (web\<lparr>provider_results := AList.update (provider @ ''_results'') results (provider_results web),
            total_web_sources := total_web_sources web + length results\<rparr>)
       (s\<lparr>sources_by_provider := AList.update provider (length results) (sources_by_provider s)\<rparr>)"

definition collect_massive_web_data ::
  "env \<Rightarrow> string \<Rightarrow> json \<Rightarrow> string \<Rightarrow> collection_stats
     \<Rightarrow> (exn + web_results) \<times> collection_stats" where
  "collect_massive_web_data e query ctx session_id s =
     (let web_results =
            \<lparr>provider_results =
               [(''exa_results'', []), (''google_results'', []), (''serper_results'', []),
                (''bing_results'', []), (''duckduckgo_results'', [])],
             total_web_sources = 0\<rparr>;
          (web_results, s) = collect_web_results (web_futures e query) web_results s;
          s = s\<lparr>web_sources := total_web_sources web_results\<rparr>
      in case salvar_etapa e ''web_data_massive'' of
           Some err \<Rightarrow> (Inl err, s)
         | None \<Rightarrow> (Inr web_results, s))"

subsection \<open>Social search: \<^verbatim>\<open>_search_social_platform_massive\<close> and \<^verbatim>\<open>_collect_massive_social_data\<close>\<close>

definition simulate_platform_data :: "string \<Rightarrow> string \<Rightarrow> platform_result" where
  "simulate_platform_data platform query =
     \<lparr>pr_success = Some True,
      pr_platform = Some platform,
      pr_results = Some
        [\<lparr>item_title = Some (''Conte'' @ [CHR 0xFA] @ ''do '' @ platform @ '' sobre '' @ query),
          item_url = Some (''https://'' @ platform @ ''.com/example''),
          item_text = Some (''Conte'' @ [CHR 0xFA] @ ''do simulado sobre '' @ query
                            @ '' na plataforma '' @ platform),
          item_caption = None,
          item_platform = Some platform,
          item_simulated = Some True\<rparr>],
      pr_total_found = Some 1,
      pr_query = Some query\<rparr>"

definition search_social_platform_massive :: "env \<Rightarrow> string \<Rightarrow> string \<Rightarrow> platform_result" where
  "search_social_platform_massive e platform query =
     (if platform = ''youtube'' then
        (case search_youtube e query 25 of Inl err \<Rightarrow> empty_platform_result | Inr r \<Rightarrow> r)
      else if platform = ''twitter'' then
        (case search_twitter e query 25 of Inl err \<Rightarrow> empty_platform_result | Inr r \<Rightarrow> r)
      else if platform = ''linkedin'' then
        (case search_linkedin e query 20 of Inl err \<Rightarrow> empty_platform_result | Inr r \<Rightarrow> r)
      else if platform = ''instagram'' then
        (case search_instagram e query 20 of Inl err \<Rightarrow> empty_platform_result | Inr r \<Rightarrow> r)
      else simulate_platform_data platform query)"

definition platforms :: "string list" where
  "platforms = [''youtube'', ''twitter'', ''linkedin'', ''instagram'', ''tiktok'', ''facebook'']"

text \<open>The loop that collects the social futures.\<close>

fun collect_social_results ::
  "(string \<times> platform_result) list \<Rightarrow> social_results \<Rightarrow> collection_stats
     \<Rightarrow> social_results \<times> collection_stats" where
  "collect_social_results [] social s = (social, s)"
| "collect_social_results ((platform, results) # rest) social s =
     (let social = social\<lparr>platform_data :=
                      AList.update (platform @ ''_data'') results (platform_data social)\<rparr>
      in if truthy (pr_results results) then
           (let count = length (get_or (pr_results results) []);
                social = social\<lparr>total_social_sources := total_social_sources social + count\<rparr>;
                s = (if platform = ''youtube''
                     then s\<lparr>youtube_sources := youtube_sources s + count\<rparr>
                     else s\<lparr>social_sources := social_sources s + count\<rparr>)
            in collect_social_results rest social s)
         else collect_social_results rest social s)"

definition collect_massive_social_data ::
  "env \<Rightarrow> string \<Rightarrow> json \<Rightarrow> string \<Rightarrow> collection_stats
     \<Rightarrow> (exn + social_results) \<times> collection_stats" where
  "collect_massive_social_data e query ctx session_id s =
     (let social_results =
            \<lparr>platform_data =
               [(''youtube_data'', empty_platform_result), (''twitter_data'', empty_platform_result),
                (''linkedin_data'', empty_platform_result), (''instagram_data'', empty_platform_result),
                (''tiktok_data'', empty_platform_result), (''facebook_data'', empty_platform_result)],
             total_social_sources = 0\<rparr>;
          futures = map (\<lambda>platform. (platform, search_social_platform_massive e platform query))
                      platforms;
          (social_results, s) = collect_social_results futures social_results s
      in case salvar_etapa e ''social_data_massive'' of
           Some err \<Rightarrow> (Inl err, s)
         | None \<Rightarrow> (Inr social_results, s))"

subsection \<open>Deep navigation: \<^verbatim>\<open>_collect_websailor_deep_data\<close>\<close>

definition collect_websailor_deep_data :: "env \<Rightarrow> string \<Rightarrow> json \<Rightarrow> string \<Rightarrow> websailor_result" where
  "collect_websailor_deep_data e query ctx session_id =
     (case navigate_and_research_deep e query ctx 50 3 session_id of
        Inl err \<Rightarrow> empty_websailor_result
      | Inr websailor_results \<Rightarrow>
          (case salvar_etapa e ''websailor_data_massive'' of
             Some err \<Rightarrow> empty_websailor_result
           | None \<Rightarrow> websailor_results))"

subsection \<open>\<^verbatim>\<open>_extract_single_content\<close>\<close>

text \<open>
  One task of the extraction pool. Every exception inside is caught and gives
  \<^verbatim>\<open>None\<close>. The score of a kept page is appended to
  \<^verbatim>\<open>collection_stats['quality_scores']\<close>.
\<close>

definition extract_single_content ::
  "env \<Rightarrow> (string \<times> string) list \<Rightarrow> nat \<Rightarrow> collection_stats
     \<Rightarrow> extracted_document option \<times> collection_stats" where
  "extract_single_content e url_data index s =
     (case dict_item url_data ''url'' of
        Inl err \<Rightarrow> (None, s)
      | Inr url \<Rightarrow>
          (case extract_content e url of
             Inl err \<Rightarrow> (None, s)
           | Inr None \<Rightarrow> (None, s)
           | Inr (Some content) \<Rightarrow>
               if content \<noteq> [] \<and> length content > 200 then
                 (let quality_score = calculate_content_quality content url_data;
                      s = s\<lparr>quality_scores := quality_scores s @ [quality_score]\<rparr>
                  in (Some \<lparr>doc_success = True,
                            doc_url = url,
                            doc_title = dict_get url_data ''title'' [],
                            doc_source = dict_get url_data ''source'' ''unknown'',
                            doc_snippet = dict_get url_data ''snippet'' [],
                            doc_content = content,
                            doc_content_length = length content,
                            doc_word_count = length (py_split content),
                            doc_quality_score = quality_score,
                            doc_extraction_index = index,
                            doc_extracted_at = now_iso e\<rparr>, s))
               else (None, s)))"

subsection \<open>\<^verbatim>\<open>_extract_massive_content\<close>\<close>

text \<open>The tasks harvested from the web results, the social results and the navigator.\<close>

definition web_url_tasks :: "web_results \<Rightarrow> (string \<times> string) list list" where
  "web_url_tasks web_data =
     concat (map (\<lambda>(key, hits).
       concat (map (\<lambda>result.
         if truthy (hit_url result)
         then [[(''url'', get_or (hit_url result) []),
                (''title'', get_or (hit_title result) []),
                (''source'', get_or (hit_source result) ''web''),
                (''snippet'', get_or (hit_snippet result) [])]]
         else []) hits)) (provider_results web_data))"

definition social_url_tasks :: "social_results \<Rightarrow> (string \<times> string) list list" where
  "social_url_tasks social_data =
     concat (map (\<lambda>(key, data).
       if truthy (pr_results data) then
         concat (map (\<lambda>result.
           if truthy (item_url result)
           then [[(''url'', get_or (item_url result) []),
                  (''title'', get_or (item_title result) []),
                  (''source'', get_or (item_platform result) ''social''),
                  (''snippet'',
                     take 200 (get_or (item_text result) (get_or (item_caption result) [])))]]
           else []) (get_or (pr_results data) []))
       else []) (platform_data social_data))"

text \<open>\<^verbatim>\<open>fonte['url']\<close> and \<^verbatim>\<open>fonte['title']\<close> raise on a source without the key.\<close>

fun fonte_tasks :: "fonte list \<Rightarrow> exn + (string \<times> string) list list" where
  "fonte_tasks [] = Inr []"
| "fonte_tasks (f # fs) =
     (case fonte_url f of
        None \<Rightarrow> Inl (KeyError ''url'')
      | Some u \<Rightarrow>
          (case fonte_title f of
             None \<Rightarrow> Inl (KeyError ''title'')
           | Some t \<Rightarrow>
               (case fonte_tasks fs of
                  Inl err \<Rightarrow> Inl err
                | Inr tasks \<Rightarrow>
                    Inr ([(''url'', u), (''title'', t), (''source'', ''websailor''),
                          (''snippet'', [])] # tasks))))"

definition websailor_url_tasks :: "websailor_result \<Rightarrow> exn + (string \<times> string) list list" where
  "websailor_url_tasks websailor_data =
     (let fontes = fontes_detalhadas
                     (get_or (ws_conteudo_consolidado websailor_data) empty_conteudo_consolidado)
      in if truthy fontes then fonte_tasks (get_or fontes []) else Inr [])"

text \<open>The pool: the tasks run, then the loop over their futures.\<close>

fun run_extraction_tasks ::
  "env \<Rightarrow> (nat \<times> (string \<times> string) list) list \<Rightarrow> collection_stats
     \<Rightarrow> (nat \<times> extracted_document option) list \<times> collection_stats" where
  "run_extraction_tasks e [] s = ([], s)"
| "run_extraction_tasks e ((i, url_data) # rest) s =
     (let (content_data, s) = extract_single_content e url_data i s;
          (futures, s) = run_extraction_tasks e rest s
      in ((i, content_data) # futures, s))"

text \<open>
  \<^verbatim>\<open>salvar_etapa(f"extracao_{i}", ...)\<close> is called inside the \<^verbatim>\<open>try\<close> of the loop,
  after the page was appended and counted: an exception of it changes nothing.
\<close>

fun collect_extracted ::
  "(nat \<times> extracted_document option) list \<Rightarrow> extracted_document list \<Rightarrow> collection_stats
     \<Rightarrow> extracted_document list \<times> collection_stats" where
  "collect_extracted [] extracted s = (extracted, s)"
| "collect_extracted ((i, content_data) # rest) extracted s =
     (case content_data of
        None \<Rightarrow> collect_extracted rest extracted s
      | Some d \<Rightarrow>
          if doc_success d then
            collect_extracted rest (extracted @ [d])
              (s\<lparr>total_content_chars := total_content_chars s + length (doc_content d)\<rparr>)
          else collect_extracted rest extracted s)"

fun categorize_sources :: "extracted_document list \<Rightarrow> (string \<times> nat) list \<Rightarrow> (string \<times> nat) list" where
  "categorize_sources [] categories = categories"
| "categorize_sources (d # ds) categories =
     categorize_sources ds
       (AList.update (doc_source d) (dict_get categories (doc_source d) 0 + 1) categories)"

text \<open>
  \<^verbatim>\<open>(len(extracted_content) / len(all_urls)) * 100 if all_urls else 0\<close> and
  \<^verbatim>\<open>total_content_chars / len(extracted_content) if extracted_content else 0\<close>.
\<close>

definition success_rate_of :: "'a list \<Rightarrow> 'b list \<Rightarrow> exn + rat" where
  "success_rate_of extracted all_urls =
     (if all_urls \<noteq> [] then
        (case py_truediv (of_nat (length extracted)) (of_nat (length all_urls)) of
           Inl err \<Rightarrow> Inl err
         | Inr q \<Rightarrow> Inr (q * 100))
      else Inr 0)"

definition avg_content_length_of :: "nat \<Rightarrow> 'a list \<Rightarrow> exn + rat" where
  "avg_content_length_of total_chars extracted =
     (if extracted \<noteq> [] then py_truediv (of_nat total_chars) (of_nat (length extracted))
      else Inr 0)"

definition extract_massive_content ::
  "env \<Rightarrow> web_results \<Rightarrow> social_results \<Rightarrow> websailor_result \<Rightarrow> string \<Rightarrow> collection_stats
     \<Rightarrow> (exn + extraction_result) \<times> collection_stats" where
  "extract_massive_content e web_data social_data websailor_data session_id s =
     (case websailor_url_tasks websailor_data of
        Inl err \<Rightarrow> (Inl err, s)
      | Inr websailor_tasks \<Rightarrow>
          (let all_urls = web_url_tasks web_data @ social_url_tasks social_data @ websailor_tasks;
               (futures, s) = run_extraction_tasks e (List.enumerate 0 (take 100 all_urls)) s;
               (extracted, s) = collect_extracted futures [] s
           in case success_rate_of extracted all_urls of
                Inl err \<Rightarrow> (Inl err, s)
              | Inr rate \<Rightarrow>
                  (case avg_content_length_of (total_content_chars s) extracted of
                     Inl err \<Rightarrow> (Inl err, s)
                   | Inr avg \<Rightarrow>
                       (let extraction_result =
                              \<lparr>total_urls_found = length all_urls,
                               total_content_extracted = length extracted,
                               extraction_success_rate = rate,
                               extracted_content = extracted,
                               extraction_stats =
                                 \<lparr>es_total_chars = total_content_chars s,
                                  es_avg_content_length = avg,
                                  es_sources_by_type = categorize_sources extracted []\<rparr>\<rparr>
                        in case salvar_etapa e ''extracao_massiva_completa'' of
                             Some err \<Rightarrow> (Inl err, s)
                           | None \<Rightarrow> (Inr extraction_result, s)))))"

subsection \<open>\<^verbatim>\<open>_generate_automatic_insights\<close> and \<^verbatim>\<open>_assess_data_quality_for_analysis\<close>\<close>

text \<open>\<^verbatim>\<open>sum(xs) / len(xs)\<close>.\<close>

definition py_mean :: "rat list \<Rightarrow> exn + rat" where
  "py_mean xs = py_truediv (sum_list xs) (of_nat (length xs))"

text \<open>
  \<^verbatim>\<open>max(d.items(), key=lambda x: x[1])\<close> on a dictionary with at least one
  item: the first item, in insertion order, whose count no later one exceeds.
\<close>

fun max_by_count :: "(string \<times> nat) \<Rightarrow> (string \<times> nat) list \<Rightarrow> (string \<times> nat)" where
  "max_by_count best [] = best"
| "max_by_count best (x # xs) =
     (if snd x > snd best then max_by_count x xs else max_by_count best xs)"

definition generate_automatic_insights ::
  "web_results \<Rightarrow> social_results \<Rightarrow> websailor_result \<Rightarrow> extraction_result \<Rightarrow> collection_stats
     \<Rightarrow> exn + fstring list" where
  "generate_automatic_insights web_data social_data websailor_data extracted s =
     (let total_sources = total_web_sources web_data + total_social_sources social_data;
          insights = [[Lit ''Coletados dados de '', Fmt_int (int total_sources) [],
                       Lit ('' fontes '' @ [CHR 0xFA] @ ''nicas'')]]
      in case (if quality_scores s \<noteq> [] then
                 (case py_mean (quality_scores s) of
                    Inl err \<Rightarrow> Inl err
                  | Inr avg_quality \<Rightarrow>
                      Inr (insights
                           @ [[Lit (''Qualidade m'' @ [CHR 0xE9] @ ''dia do conte'' @ [CHR 0xFA]
                                    @ ''do: ''),
                               Fmt_float avg_quality ''.1f'', Lit ''/100'']]))
               else Inr insights) of
           Inl err \<Rightarrow> Inl err
         | Inr insights \<Rightarrow>
             (let total_chars = total_content_chars s;
                  insights =
                    (if total_chars > 0 then
                       insights
                       @ [[Lit ''Total de '', Fmt_int (int total_chars) '','',
                           Lit ('' caracteres de conte'' @ [CHR 0xFA] @ ''do extra''
                                @ [CHR 0xED] @ ''do'')],
                          [Lit ''Equivalente a aproximadamente '',
                           Fmt_int (int (total_chars div 2000)) [],
                           Lit ('' p'' @ [CHR 0xE1] @ ''ginas A4'')]]
                     else insights);
                  best_provider =
                    (case sources_by_provider s of
                       [] \<Rightarrow> None
                     | x # xs \<Rightarrow> Some (max_by_count x xs))
              in case best_provider of
                   None \<Rightarrow> Inr insights
                 | Some best \<Rightarrow>
                     Inr (insights
                          @ [[Lit ''Melhor provedor: '', Fmt_str (fst best), Lit '' com '',
                              Fmt_int (int (snd best)) [], Lit '' resultados'']])))"

definition assess_data_quality_for_analysis :: "extraction_result \<Rightarrow> exn + bool" where
  "assess_data_quality_for_analysis extracted =
     (let content_list = extracted_content extracted
      in if length content_list < 10 then Inr False
         else
           (let total_chars = sum_list (map (\<lambda>item. length (doc_content item)) content_list)
            in if total_chars < 30000 then Inr False
               else
                 (case py_mean (map doc_quality_score content_list) of
                    Inl err \<Rightarrow> Inl err
                  | Inr avg_quality \<Rightarrow> Inr (avg_quality \<ge> 60))))"

subsection \<open>\<^verbatim>\<open>_consolidate_massive_json\<close>\<close>

text \<open>
  The dictionary literal is evaluated key by key, so the three computations
  that divide run in the order of their keys.
\<close>

definition consolidate_massive_json ::
  "env \<Rightarrow> web_results \<Rightarrow> social_results \<Rightarrow> websailor_result \<Rightarrow> extraction_result
     \<Rightarrow> string \<Rightarrow> json \<Rightarrow> string \<Rightarrow> collection_stats \<Rightarrow> exn + massive_json" where
  "consolidate_massive_json e web_data social_data websailor_data extracted query ctx session_id s =
     (case (if quality_scores s \<noteq> [] then py_mean (quality_scores s) else Inr 0) of
        Inl err \<Rightarrow> Inl err
      | Inr qualidade_media \<Rightarrow>
     (case generate_automatic_insights web_data social_data websailor_data extracted s of
        Inl err \<Rightarrow> Inl err
      | Inr insights \<Rightarrow>
     (case assess_data_quality_for_analysis extracted of
        Inl err \<Rightarrow> Inl err
      | Inr qualidade_suficiente \<Rightarrow>
          (let consolidado =
                 get_or (ws_conteudo_consolidado websailor_data) empty_conteudo_consolidado
           in Inr
             \<lparr>mj_metadata_coleta_massiva = Some
                \<lparr>md_session_id = session_id,
                 md_query_original = query,
                 md_context_original = ctx,
                 md_timestamp_coleta = now_iso e,
                 md_versao_sistema = ''ARQV30 Enhanced v3.0'',
                 md_tipo_coleta = ''MASSIVA_COMPLETA'',
                 garantia_dados_reais = True,
                 zero_simulacao = True\<rparr>,
              mj_estatisticas_coleta = Some
                \<lparr>total_fontes_web = Some (web_sources s),
                 total_fontes_sociais = Some (social_sources s),
                 total_fontes_youtube = Some (youtube_sources s),
                 total_caracteres_extraidos = Some (total_content_chars s),
                 tempo_coleta_segundos = Some (extraction_time s),
                 fontes_por_provedor = Some (sources_by_provider s),
                 taxa_sucesso_extracao = Some (extraction_success_rate extracted),
                 qualidade_media_conteudo = Some qualidade_media\<rparr>,
              mj_dados_web_completos = Some
                \<lparr>busca_exa_neural = dict_get (provider_results web_data) ''exa_results'' [],
                 busca_google_custom = dict_get (provider_results web_data) ''google_results'' [],
                 busca_serper_api = dict_get (provider_results web_data) ''serper_results'' [],
                 busca_bing_scraping = dict_get (provider_results web_data) ''bing_results'' [],
                 busca_duckduckgo_scraping =
                   dict_get (provider_results web_data) ''duckduckgo_results'' [],
                 total_resultados_web = total_web_sources web_data\<rparr>,
              mj_dados_sociais_completos = Some
                \<lparr>youtube_completo =
                   dict_get (platform_data social_data) ''youtube_data'' empty_platform_result,
                 twitter_completo =
                   dict_get (platform_data social_data) ''twitter_data'' empty_platform_result,
                 linkedin_completo =
                   dict_get (platform_data social_data) ''linkedin_data'' empty_platform_result,
                 instagram_completo =
                   dict_get (platform_data social_data) ''instagram_data'' empty_platform_result,
                 tiktok_completo =
                   dict_get (platform_data social_data) ''tiktok_data'' empty_platform_result,
                 facebook_completo =
                   dict_get (platform_data social_data) ''facebook_data'' empty_platform_result,
                 total_posts_sociais = total_social_sources social_data\<rparr>,
              mj_dados_websailor_profundos = Some
                \<lparr>dw_navegacao_profunda = get_or (ws_navegacao_profunda websailor_data) (JObj []),
                 dw_conteudo_consolidado = consolidado,
                 dw_insights_principais = get_or (insights_principais consolidado) [],
                 dw_tendencias_identificadas = get_or (tendencias_identificadas consolidado) [],
                 dw_oportunidades_descobertas =
                   get_or (oportunidades_descobertas consolidado) []\<rparr>,
              mj_conteudo_extraido_massivo = Some
                \<lparr>total_paginas_extraidas = total_content_extracted extracted,
                 conteudo_completo = extracted_content extracted,
                 estatisticas_extracao = extraction_stats extracted,
                 taxa_sucesso = extraction_success_rate extracted\<rparr>,
              mj_insights_consolidados_automaticos = Some insights,
              mj_preparacao_para_analises = Some
                [(''dados_prontos_para_avatar'', True),
                 (''dados_prontos_para_drivers'', True),
                 (''dados_prontos_para_provas_visuais'', True),
                 (''dados_prontos_para_anti_objecao'', True),
                 (''dados_prontos_para_pre_pitch'', True),
                 (''dados_prontos_para_predicoes'', True),
                 (''dados_prontos_para_concorrencia'', True),
                 (''dados_prontos_para_posicionamento'', True),
                 (''qualidade_suficiente_para_analises'', qualidade_suficiente)]\<rparr>))))"

subsection \<open>\<^verbatim>\<open>_save_massive_json\<close>\<close>

definition save_massive_json :: "env \<Rightarrow> massive_json \<Rightarrow> string \<Rightarrow> exn + string" where
  "save_massive_json e mj session_id =
     (let file_path = ''analyses_data/massive_data/massive_data_'' @ take 8 session_id @ ''_''
                      @ now_stamp e @ ''.json''
      in case write_json_file e file_path mj of
           Some err \<Rightarrow> Inl err
         | None \<Rightarrow> Inr file_path)"

subsection \<open>\<^verbatim>\<open>collect_massive_data\<close>\<close>

record collection_result =
  cr_success :: bool
  cr_session_id :: string
  cr_query :: string
  cr_context :: json
  massive_json_path :: string
  massive_data :: massive_json
  cr_collection_stats :: collection_stats
  cr_collection_time :: rat
  cr_collection_time_formatted :: fstring
  validation_results :: validation
  cr_timestamp :: string

text \<open>
  Sequencing inside a \<^verbatim>\<open>try\<close> block: a call that raises ends the block with the
  exception and the statistics as they are at that point.
\<close>

definition then_do :: "exn option \<Rightarrow> 's \<Rightarrow> (exn + 'a) \<times> 's \<Rightarrow> (exn + 'a) \<times> 's" where
  "then_do raised s rest = (case raised of Some err \<Rightarrow> (Inl err, s) | None \<Rightarrow> rest)"

definition bind_run ::
  "(exn + 'a) \<times> 's \<Rightarrow> ('a \<Rightarrow> 's \<Rightarrow> (exn + 'b) \<times> 's) \<Rightarrow> (exn + 'b) \<times> 's" where
  "bind_run r rest = (case r of (Inl err, s) \<Rightarrow> (Inl err, s) | (Inr a, s) \<Rightarrow> rest a s)"

text \<open>
  \<^verbatim>\<open>if progress_callback: progress_callback(step, message)\<close>. The callback is
  given the step; the message is a constant of the step.
\<close>

definition progress :: "(nat \<Rightarrow> exn option) option \<Rightarrow> nat \<Rightarrow> exn option" where
  "progress progress_callback step =
     (case progress_callback of None \<Rightarrow> None | Some f \<Rightarrow> f step)"

text \<open>The \<^verbatim>\<open>try\<close> block up to the snapshot (phases 1 to 5).\<close>

definition collect_and_consolidate ::
  "env \<Rightarrow> string \<Rightarrow> json \<Rightarrow> string \<Rightarrow> (nat \<Rightarrow> exn option) option \<Rightarrow> collection_stats
     \<Rightarrow> (exn + massive_json) \<times> collection_stats" where
  "collect_and_consolidate e query ctx session_id progress_callback s =
     then_do (salvar_etapa e ''coleta_massiva_iniciada'') s
    (then_do (progress progress_callback 1) s
    (then_do (progress progress_callback 2) s
    (bind_run (collect_massive_web_data e query ctx session_id s) (\<lambda>web_data s.
     then_do (progress progress_callback 4) s
    (bind_run (collect_massive_social_data e query ctx session_id s) (\<lambda>social_data s.
     then_do (progress progress_callback 6) s
    (let websailor_data = collect_websailor_deep_data e query ctx session_id in
     then_do (progress progress_callback 8) s
    (bind_run (extract_massive_content e web_data social_data websailor_data session_id s)
       (\<lambda>extracted s.
     then_do (progress progress_callback 10) s
    (case consolidate_massive_json e web_data social_data websailor_data extracted
            query ctx session_id s of
       Inl err \<Rightarrow> (Inl err, s)
     | Inr mj \<Rightarrow> (Inr mj, s)))))))))))"

text \<open>The whole \<^verbatim>\<open>try\<close> block: the snapshot is saved, validated and returned.\<close>

definition collect_try ::
  "env \<Rightarrow> string \<Rightarrow> json \<Rightarrow> string \<Rightarrow> (nat \<Rightarrow> exn option) option \<Rightarrow> collection_stats
     \<Rightarrow> (exn + collection_result) \<times> collection_stats" where
  "collect_try e query ctx session_id progress_callback s =
     bind_run (collect_and_consolidate e query ctx session_id progress_callback s) (\<lambda>mj s.
     then_do (progress progress_callback 11) s
    (case save_massive_json e mj session_id of
       Inl err \<Rightarrow> (Inl err, s)
     | Inr json_file_path \<Rightarrow>
         then_do (progress progress_callback 12) s
        (case validate_massive_data mj of
           Inl err \<Rightarrow> (Inl err, s)
         | Inr validation \<Rightarrow>
             (let collection_time = elapsed e;
                  collection_result =
                    \<lparr>cr_success = True,
                     cr_session_id = session_id,
                     cr_query = query,
                     cr_context = ctx,
                     massive_json_path = json_file_path,
                     massive_data = mj,
                     cr_collection_stats = s,
                     cr_collection_time = collection_time,
                     cr_collection_time_formatted =
                       [Fmt_int (\<lfloor>collection_time / 60\<rfloor>) [], Lit ''m '',
                        Fmt_int (\<lfloor>collection_time - 60 * of_int \<lfloor>collection_time / 60\<rfloor>\<rfloor>) [],
                        Lit ''s''],
                     validation_results = validation,
                     cr_timestamp = now_iso e\<rparr>
              in then_do (salvar_etapa e ''coleta_massiva_completa'') s
                   (Inr collection_result, s)))))"

text \<open>
  The handler: \<^verbatim>\<open>salvar_erro("coleta_massiva_erro", e, contexto={"query": query})\<close>,
  then \<^verbatim>\<open>raise e\<close>.
\<close>

definition collect_massive_data ::
  "env \<Rightarrow> string \<Rightarrow> json \<Rightarrow> string \<Rightarrow> (nat \<Rightarrow> exn option) option \<Rightarrow> collection_stats
     \<Rightarrow> (exn + collection_result) \<times> collection_stats" where
  "collect_massive_data e query ctx session_id progress_callback s =
     (case collect_try e query ctx session_id progress_callback s of
        (Inr collection_result, s) \<Rightarrow> (Inr collection_result, s)
      | (Inl err, s) \<Rightarrow>
          (case salvar_erro e ''coleta_massiva_erro'' err query of
             Some err2 \<Rightarrow> (Inl err2, s)
           | None \<Rightarrow> (Inl err, s)))"

subsection \<open>Names for what the properties speak of\<close>

text \<open>
  The two statistics the validator reads from a snapshot, with the defaults of
  its \<^verbatim>\<open>.get\<close> calls, and the two problems it records.
\<close>

definition snapshot_total_chars :: "massive_json \<Rightarrow> nat" where
  "snapshot_total_chars mj =
     get_or (total_caracteres_extraidos
               (get_or (mj_estatisticas_coleta mj) empty_estatisticas_coleta)) 0"

definition snapshot_avg_quality :: "massive_json \<Rightarrow> rat" where
  "snapshot_avg_quality mj =
     get_or (qualidade_media_conteudo
               (get_or (mj_estatisticas_coleta mj) empty_estatisticas_coleta)) 0"

definition volume_problem :: "nat \<Rightarrow> fstring" where
  "volume_problem n =
     [Lit ''Volume insuficiente: '', Fmt_int (int n) [], Lit '' < 50000 caracteres'']"

definition quality_problem :: "rat \<Rightarrow> fstring" where
  "quality_problem q = [Lit ''Qualidade baixa: '', Fmt_float q [], Lit '' < 60'']"

text \<open>
  The readiness map the consolidator writes: eight flags, all true, and the
  verdict of \<^verbatim>\<open>_assess_data_quality_for_analysis\<close>.
\<close>

definition consolidated_preparacao :: "bool \<Rightarrow> (string \<times> bool) list" where
  "consolidated_preparacao q =
     [(''dados_prontos_para_avatar'', True),
      (''dados_prontos_para_drivers'', True),
      (''dados_prontos_para_provas_visuais'', True),
      (''dados_prontos_para_anti_objecao'', True),
      (''dados_prontos_para_pre_pitch'', True),
      (''dados_prontos_para_predicoes'', True),
      (''dados_prontos_para_concorrencia'', True),
      (''dados_prontos_para_posicionamento'', True),
      (''qualidade_suficiente_para_analises'', q)]"

text \<open>
  The readiness key that belongs to each catalogued module, as the consolidator
  names them.
\<close>

definition readiness_key :: "string \<Rightarrow> string" where
  "readiness_key m =
     (if m = ''avatar_ultra_detalhado'' then ''dados_prontos_para_avatar''
      else if m = ''drivers_mentais_customizados'' then ''dados_prontos_para_drivers''
      else if m = ''provas_visuais_arsenal'' then ''dados_prontos_para_provas_visuais''
      else if m = ''sistema_anti_objecao'' then ''dados_prontos_para_anti_objecao''
      else if m = ''pre_pitch_invisivel'' then ''dados_prontos_para_pre_pitch''
      else if m = ''predicoes_futuro'' then ''dados_prontos_para_predicoes''
      else if m = ''analise_concorrencia'' then ''dados_prontos_para_concorrencia''
      else if m = ''posicionamento_estrategico'' then ''dados_prontos_para_posicionamento''
      else [])"

text \<open>A snapshot with just enough characters and a quality just below the threshold.\<close>

definition borderline_snapshot :: massive_json where
  "borderline_snapshot =
     empty_massive_json\<lparr>mj_estatisticas_coleta :=
       Some (empty_estatisticas_coleta\<lparr>total_caracteres_extraidos := Some 50000,
                                        qualidade_media_conteudo := Some (119 / 2)\<rparr>)\<rparr>"

text \<open>
  The dictionaries on which the validator can read what it reads: the two
  sections absent or dictionaries, the two statistics absent or numbers.
\<close>

definition section_ok :: "(string \<times> json) list \<Rightarrow> string \<Rightarrow> bool" where
  "section_ok d k =
     (case map_of d k of None \<Rightarrow> True | Some (JObj sec) \<Rightarrow> True | Some _ \<Rightarrow> False)"

definition is_number :: "json \<Rightarrow> bool" where
  "is_number v = (case v of JNum q \<Rightarrow> True | JBool b \<Rightarrow> True | _ \<Rightarrow> False)"

definition statistic_ok :: "(string \<times> json) list \<Rightarrow> string \<Rightarrow> bool" where
  "statistic_ok d k =
     (case map_of d ''estatisticas_coleta'' of
        Some (JObj est) \<Rightarrow> (case map_of est k of None \<Rightarrow> True | Some v \<Rightarrow> is_number v)
      | _ \<Rightarrow> True)"

definition validator_can_read :: "(string \<times> json) list \<Rightarrow> bool" where
  "validator_can_read d =
     (section_ok d ''estatisticas_coleta''
      \<and> statistic_ok d ''total_caracteres_extraidos''
      \<and> statistic_ok d ''qualidade_media_conteudo''
      \<and> section_ok d ''preparacao_para_analises'')"

text \<open>
  A snapshot of the consolidator's shape as the dictionary the validator is
  given: a key for every section and statistic that is present. Of the sections,
  the two the validator reads are written out; it looks no other key up.
\<close>

definition entry :: "string \<Rightarrow> 'v option \<Rightarrow> (string \<times> 'v) list" where
  "entry k o_v = (case o_v of None \<Rightarrow> [] | Some v \<Rightarrow> [(k, v)])"

definition estatisticas_dict :: "estatisticas_coleta \<Rightarrow> json" where
  "estatisticas_dict est = JObj
     (entry ''total_fontes_web'' (map_option (\<lambda>n. JNum (of_nat n)) (total_fontes_web est))
      @ entry ''total_fontes_sociais'' (map_option (\<lambda>n. JNum (of_nat n)) (total_fontes_sociais est))
      @ entry ''total_fontes_youtube'' (map_option (\<lambda>n. JNum (of_nat n)) (total_fontes_youtube est))
      @ entry ''total_caracteres_extraidos''
          (map_option (\<lambda>n. JNum (of_nat n)) (total_caracteres_extraidos est))
      @ entry ''tempo_coleta_segundos'' (map_option JNum (tempo_coleta_segundos est))
      @ entry ''fontes_por_provedor''
          (map_option (\<lambda>ps. JObj (map (\<lambda>(p, n). (p, JNum (of_nat n))) ps))
             (fontes_por_provedor est))
      @ entry ''taxa_sucesso_extracao'' (map_option JNum (taxa_sucesso_extracao est))
      @ entry ''qualidade_media_conteudo'' (map_option JNum (qualidade_media_conteudo est)))"

definition preparacao_dict :: "(string \<times> bool) list \<Rightarrow> json" where
  "preparacao_dict prep = JObj (map (\<lambda>(k, b). (k, JBool b)) prep)"

definition validator_view :: "massive_json \<Rightarrow> (string \<times> json) list" where
  "validator_view mj =
     entry ''estatisticas_coleta'' (map_option estatisticas_dict (mj_estatisticas_coleta mj))
     @ entry ''preparacao_para_analises''
         (map_option preparacao_dict (mj_preparacao_para_analises mj))"

text \<open>
  The report on a typed snapshot as the report on its dictionary: the numbers set
  into the problems are values of the dictionary.
\<close>

fun as_json_piece :: "fpart \<Rightarrow> fpart" where
  "as_json_piece (Fmt_int i spec) = Fmt_json (JNum (of_int i)) spec"
| "as_json_piece (Fmt_float q spec) = Fmt_json (JNum q) spec"
| "as_json_piece piece = piece"

definition as_dict_report :: "validation \<Rightarrow> validation" where
  "as_dict_report v =
     v\<lparr>problemas_identificados := map (map as_json_piece) (problemas_identificados v)\<rparr>"

text \<open>Dictionaries with a section that is \<^verbatim>\<open>None\<close>, and with a statistic that is a string.\<close>

definition none_section_snapshot :: "(string \<times> json) list" where
  "none_section_snapshot = [(''estatisticas_coleta'', JNull)]"

definition text_statistic_snapshot :: "(string \<times> json) list" where
  "text_statistic_snapshot =
     [(''estatisticas_coleta'', JObj [(''total_caracteres_extraidos'', JStr ''50000'')])]"

definition none_readiness_snapshot :: "(string \<times> json) list" where
  "none_readiness_snapshot = [(''preparacao_para_analises'', JNull)]"

text \<open>A dictionary with just enough characters and a quality just below the threshold.\<close>

definition borderline_dict :: "(string \<times> json) list" where
  "borderline_dict =
     [(''estatisticas_coleta'',
       JObj [(''total_caracteres_extraidos'', JNum 50000),
             (''qualidade_media_conteudo'', JNum (119 / 2))])]"

subsection \<open>Inputs of the scenarios\<close>

text \<open>Two thousand characters in four hundred words, none of them a figure.\<close>

definition plain_text :: string where
  "plain_text = concat (replicate 400 ''abcd '')"

definition exa_task :: "(string \<times> string) list" where
  "exa_task = [(''url'', ''https://example.org/a''), (''title'', ''A''), (''source'', ''exa''), (''snippet'', '''')]"

subsection \<open>Collaborators of the scenarios\<close>

text \<open>
  No search client finds anything, the extractor finds no text, the step store
  and the file system work.
\<close>

definition quiet_env :: env where
  "quiet_env =
     \<lparr>exa_is_available = False,
      exa_search = (\<lambda>q. Inl TimeoutError),
      search_google = (\<lambda>q n. Inr []),
      search_serper = (\<lambda>q n. Inl (OtherError ''no API key'')),
      search_bing = (\<lambda>q n. Inr []),
      search_youtube = (\<lambda>q n. Inr empty_platform_result),
      search_twitter = (\<lambda>q n. Inr empty_platform_result),
      search_linkedin = (\<lambda>q n. Inl TimeoutError),
      search_instagram = (\<lambda>q n. Inr empty_platform_result),
      navigate_and_research_deep = (\<lambda>q c pages depth sid. Inr empty_websailor_result),
      extract_content = (\<lambda>u. Inr None),
      salvar_etapa = (\<lambda>name. None),
      salvar_erro = (\<lambda>name err q. None),
      write_json_file = (\<lambda>path mj. None),
      now_iso = ''2024-01-01T00:00:00'',
      now_stamp = ''20240101_000000'',
      elapsed = 1\<rparr>"

text \<open>The same, but for the extractor and the file system.\<close>

definition scenario_env ::
  "(string \<Rightarrow> exn + string option) \<Rightarrow> (string \<Rightarrow> massive_json \<Rightarrow> exn option) \<Rightarrow> env" where
  "scenario_env extractor file_system =
     quiet_env\<lparr>extract_content := extractor, write_json_file := file_system\<rparr>"

text \<open>A file system that has no space left.\<close>

definition disk_full :: exn where
  "disk_full = OtherError ''[Errno 28] No space left on device''"

definition disk_full_env :: env where
  "disk_full_env = scenario_env (\<lambda>u. Inr None) (\<lambda>path mj. Some disk_full)"

text \<open>A file system that refuses to open the file, and names it.\<close>

definition permission_env :: env where
  "permission_env =
     scenario_env (\<lambda>u. Inr None)
       (\<lambda>path mj. Some (OtherError (''[Errno 13] Permission denied: '' @ path)))"

text \<open>An extractor that finds a text of exactly 200 characters.\<close>

definition text_200 :: string where
  "text_200 = replicate 200 (CHR ''a'')"

definition env_200 :: env where
  "env_200 = scenario_env (\<lambda>u. Inr (Some text_200)) (\<lambda>path mj. None)"

text \<open>An extractor that finds the text of two thousand characters on every page.\<close>

definition pages_env :: env where
  "pages_env = scenario_env (\<lambda>u. Inr (Some plain_text)) (\<lambda>path mj. None)"

text \<open>
  An extractor that finds 12500 characters, in 2500 words without a figure, on
  every page.
\<close>

definition long_text :: string where
  "long_text = concat (replicate 2500 ''abcd '')"

definition long_pages_env :: env where
  "long_pages_env = scenario_env (\<lambda>u. Inr (Some long_text)) (\<lambda>path mj. None)"

text \<open>The text of an exception, and whether a text occurs in another.\<close>

definition exn_text :: "exn \<Rightarrow> string" where
  "exn_text err =
     (case err of
        KeyError k \<Rightarrow> k
      | IndexError \<Rightarrow> ''list index out of range''
      | AttributeError \<Rightarrow> ''object has no attribute get''
      | TypeError \<Rightarrow> ''comparison not supported''
      | ZeroDivisionError \<Rightarrow> ''division by zero''
      | TimeoutError \<Rightarrow> []
      | OtherError m \<Rightarrow> m)"

fun occurs_in :: "string \<Rightarrow> string \<Rightarrow> bool" where
  "occurs_in needle [] = (needle = [])"
| "occurs_in needle (c # cs) =
     (take (length needle) (c # cs) = needle \<or> occurs_in needle cs)"

text \<open>What the web and social phases return when no search client finds anything.\<close>

definition quiet_web :: web_results where
  "quiet_web =
     \<lparr>provider_results =
        [(''exa_results'', []), (''google_results'', []), (''serper_results'', []),
         (''bing_results'', []), (''duckduckgo_results'', [])],
      total_web_sources = 0\<rparr>"

definition quiet_social :: "string \<Rightarrow> social_results" where
  "quiet_social query =
     \<lparr>platform_data =
        [(''youtube_data'', empty_platform_result), (''twitter_data'', empty_platform_result),
         (''linkedin_data'', empty_platform_result), (''instagram_data'', empty_platform_result),
         (''tiktok_data'', simulate_platform_data ''tiktok'' query),
         (''facebook_data'', simulate_platform_data ''facebook'' query)],
      total_social_sources = 2\<rparr>"

text \<open>The task harvested from the simulated item of a platform.\<close>

definition simulated_task :: "string \<Rightarrow> string \<Rightarrow> (string \<times> string) list" where
  "simulated_task platform query =
     [(''url'', ''https://'' @ platform @ ''.com/example''),
      (''title'', ''Conte'' @ [CHR 0xFA] @ ''do '' @ platform @ '' sobre '' @ query),
      (''source'', platform),
      (''snippet'', take 200 (''Conte'' @ [CHR 0xFA] @ ''do simulado sobre '' @ query
                              @ '' na plataforma '' @ platform))]"

text \<open>Phase results with nothing in them.\<close>

definition no_web_results :: web_results where
  "no_web_results = \<lparr>provider_results = [], total_web_sources = 0\<rparr>"

definition no_social_results :: social_results where
  "no_social_results = \<lparr>platform_data = [], total_social_sources = 0\<rparr>"

definition no_extraction :: extraction_result where
  "no_extraction =
     \<lparr>total_urls_found = 0, total_content_extracted = 0, extraction_success_rate = 0,
      extracted_content = [],
      extraction_stats = \<lparr>es_total_chars = 0, es_avg_content_length = 0, es_sources_by_type = []\<rparr>\<rparr>"

text \<open>What a platform search contributes to the counts of the social phase.\<close>

definition platform_count :: "platform_result \<Rightarrow> nat" where
  "platform_count r = (if truthy (pr_results r) then length (get_or (pr_results r) []) else 0)"

text \<open>
  The statistics after one run in which the search clients find nothing and the
  extractor finds \<open>long_text\<close> on the two simulated pages, started from \<open>s\<close>.
\<close>

definition after_long_run :: "collection_stats \<Rightarrow> collection_stats" where
  "after_long_run s =
     s\<lparr>sources_by_provider :=
          AList.update ''duckduckgo'' 0 (AList.update ''bing'' 0 (AList.update ''serper'' 0
            (AList.update ''google'' 0 (sources_by_provider s)))),
       web_sources := 0,
       social_sources := social_sources s + 2,
       quality_scores := quality_scores s @ [50, 50],
       total_content_chars := total_content_chars s + 25000\<rparr>"

section \<open>Properties\<close>

lemma size_component_bounds: "5 \<le> size_component n \<and> size_component n \<le> 25"
  by (simp add: size_component_def)

lemma density_component_bounds: "5 \<le> density_component n \<and> density_component n \<le> 25"
  by (simp add: density_component_def)

lemma data_evidence_component_bounds:
  "0 \<le> data_evidence_component a b \<and> data_evidence_component a b \<le> 35"
  by (simp add: data_evidence_component_def min_def)

lemma source_trust_component_bounds:
  "0 \<le> source_trust_component t \<and> source_trust_component t \<le> 10"
  by (simp add: source_trust_component_def)

lemma calculate_content_quality_components:
  "calculate_content_quality content url_data =
     min (size_component (length content)
          + density_component (length (py_split content))
          + data_evidence_component
              (length (re_findall match_number content))
              (length (re_findall match_money content))
          + source_trust_component (dict_get url_data ''source'' '''')) 100"
proof -
  define a where "a = size_component (length content)"
  define b where "b = density_component (length (py_split content))"
  define t where "t = source_trust_component (dict_get url_data ''source'' '''')"
  have a: "(if length content \<ge> 2000 then (0::rat) + 25
            else if length content \<ge> 1000 then 0 + 15 else 0 + 5) = a"
    unfolding a_def size_component_def by (simp split del: if_split cong: if_cong)
  have b: "\<And>s::rat. (if length (py_split content) \<ge> 300 then s + 25
            else if length (py_split content) \<ge> 150 then s + 15 else s + 5) = s + b"
    unfolding b_def density_component_def by (simp split: if_split)
  have t: "\<And>s::rat. (if dict_get url_data ''source'' '''' = ''exa'' then s + 10
            else if dict_get url_data ''source'' '''' = ''websailor'' then s + 8
            else if dict_get url_data ''source'' '''' \<in> set [''google'', ''serper''] then s + 6
            else s) = s + t"
    unfolding t_def source_trust_component_def by (simp split: if_split)
  show ?thesis
    unfolding calculate_content_quality_def Let_def a b t
    unfolding a_def[symmetric] b_def[symmetric] t_def[symmetric] data_evidence_component_def
    by (simp only: mult.commute add.assoc)
qed

lemma quality_sum_bounds:
  "10 \<le> size_component n + density_component w + data_evidence_component a b
          + source_trust_component t
   \<and> size_component n + density_component w + data_evidence_component a b
          + source_trust_component t \<le> 95"
  using size_component_bounds [of n] density_component_bounds [of w]
    data_evidence_component_bounds [of a b] source_trust_component_bounds [of t]
  by linarith

text \<open>
  Claim C2. The quality score is a function of the text and of the source tag of the
  task alone: it is the sum of the size, density, data-evidence and source-trust
  components of the specification, clamped to the interval from 0 to 100, and it
  lies in that interval. The model of \<^verbatim>\<open>_calculate_content_quality\<close> reads and
  writes nothing but its two arguments, and of the task it reads the source tag
  only, so two calls on the same text and tag give the same value.
\<close>

theorem quality_score_spec:
  "calculate_content_quality content url_data
     = spec_quality_score content (dict_get url_data ''source'' '''')
   \<and> 0 \<le> calculate_content_quality content url_data
   \<and> calculate_content_quality content url_data \<le> 100"
  using quality_sum_bounds [of "length content" "length (py_split content)"
      "length (re_findall match_number content)" "length (re_findall match_money content)"
      "dict_get url_data ''source'' ''''"]
  unfolding calculate_content_quality_components spec_quality_score_def
  by (simp add: min_def max_def)

theorem quality_score_spec_witness:
  "calculate_content_quality ''R$ 10 e 5.5%'' [(''source'', ''exa'')] = 27
   \<and> spec_quality_score ''R$ 10 e 5.5%'' ''exa'' = 27"
proof -
  have v: "spec_quality_score ''R$ 10 e 5.5%'' ''exa'' = 27"
    by code_simp
  have g: "dict_get [(''source'', ''exa'')] ''source'' '''' = ''exa''"
    by (simp add: dict_get_def)
  from quality_score_spec [of "''R$ 10 e 5.5%''" "[(''source'', ''exa'')]"] v g
  show ?thesis by simp
qed

subsection \<open>A text without figures\<close>

lemma match_number_no_digit: "s = [] \<or> \<not> is_digit (hd s) \<Longrightarrow> match_number s = None"
  by (cases s) (auto simp: match_number_def)

lemma findall_number_no_digit:
  "\<forall>c\<in>set s. \<not> is_digit c \<Longrightarrow> findall_from match_number k s = []"
proof (induction s arbitrary: k)
  case Nil
  then show ?case by simp
next
  case (Cons c cs)
  then show ?case
    by (cases k) (simp_all add: match_number_no_digit)
qed

lemma match_money_not_R: "c \<noteq> CHR ''R'' \<Longrightarrow> match_money (c # cs) = None"
  by (cases cs) (simp_all add: match_money_def)

lemma findall_money_no_R:
  "CHR ''R'' \<notin> set s \<Longrightarrow> findall_from match_money k s = []"
proof (induction s arbitrary: k)
  case Nil
  then show ?case by simp
next
  case (Cons c cs)
  from Cons.prems have c: "c \<noteq> CHR ''R''" and cs: "CHR ''R'' \<notin> set cs"
    by auto
  show ?case
    by (cases k) (simp_all add: match_money_not_R [OF c] Cons.IH [OF cs])
qed

lemma split_ws_abcd: "split_ws [] (''abcd '' @ s) = ''abcd'' # split_ws [] s"
  by (simp add: is_space_def)

lemma py_split_replicate_abcd: "py_split (concat (replicate n ''abcd '')) = replicate n ''abcd''"
  unfolding py_split_def
proof (induction n)
  case 0
  then show ?case by simp
next
  case (Suc n)
  have "split_ws [] (concat (replicate (Suc n) ''abcd ''))
        = split_ws [] (''abcd '' @ concat (replicate n ''abcd ''))"
    by simp
  also have "\<dots> = ''abcd'' # split_ws [] (concat (replicate n ''abcd ''))"
    by (rule split_ws_abcd)
  finally show ?case using Suc by simp
qed

lemma plain_text_length: "length plain_text = 2000"
  by (simp add: plain_text_def length_concat sum_list_replicate)

lemma plain_text_words: "length (py_split plain_text) = 400"
  by (simp add: plain_text_def py_split_replicate_abcd)

lemma plain_text_numbers: "re_findall match_number plain_text = []"
  unfolding re_findall_def plain_text_def
  by (rule findall_number_no_digit) (simp add: is_digit_def)

lemma plain_text_money: "re_findall match_money plain_text = []"
  unfolding re_findall_def plain_text_def
  by (rule findall_money_no_R) simp

lemma exa_task_source: "dict_get exa_task ''source'' '''' = ''exa''"
  by (simp add: exa_task_def dict_get_def)

lemma plain_text_quality: "calculate_content_quality plain_text exa_task = 60"
  unfolding calculate_content_quality_components plain_text_length plain_text_words
    plain_text_numbers plain_text_money exa_task_source
  by (simp add: size_component_def density_component_def data_evidence_component_def
      source_trust_component_def)

text \<open>
  Claim C9, as amended. For a text of at least 2000 characters and at least 300
  words whose source tag is \<^verbatim>\<open>exa\<close>, the score is 60 plus the data-evidence
  component: at least 60 and at most 95, and at least 75 exactly when the
  figures found in the text are worth 15 points or more.
\<close>

theorem high_trust_dense_text_quality:
  assumes "2000 \<le> length content"
    and "300 \<le> length (py_split content)"
    and "dict_get url_data ''source'' '''' = ''exa''"
  shows "calculate_content_quality content url_data
           = 60 + data_evidence_component
                    (length (re_findall match_number content))
                    (length (re_findall match_money content))
         \<and> 60 \<le> calculate_content_quality content url_data
         \<and> calculate_content_quality content url_data \<le> 95
         \<and> (75 \<le> calculate_content_quality content url_data
              \<longleftrightarrow> 15 \<le> data_evidence_component
                    (length (re_findall match_number content))
                    (length (re_findall match_money content)))"
proof -
  let ?e = "data_evidence_component
              (length (re_findall match_number content))
              (length (re_findall match_money content))"
  have e: "0 \<le> ?e \<and> ?e \<le> 35"
    by (rule data_evidence_component_bounds)
  have "calculate_content_quality content url_data = min (25 + 25 + ?e + 10) 100"
    unfolding calculate_content_quality_components
    using assms by (simp add: size_component_def density_component_def source_trust_component_def)
  with e have "calculate_content_quality content url_data = 60 + ?e"
    by (simp add: min_def)
  with e show ?thesis by simp
qed

theorem high_trust_dense_text_quality_witness:
  "2000 \<le> length plain_text
   \<and> 300 \<le> length (py_split plain_text)
   \<and> dict_get exa_task ''source'' '''' = ''exa''
   \<and> 60 \<le> calculate_content_quality plain_text exa_task
   \<and> calculate_content_quality plain_text exa_task \<le> 95"
proof -
  have h1: "2000 \<le> length plain_text" by (simp add: plain_text_length)
  have h2: "300 \<le> length (py_split plain_text)" by (simp add: plain_text_words)
  from high_trust_dense_text_quality [OF h1 h2 exa_task_source] h1 h2 exa_task_source
  show ?thesis by simp
qed

text \<open>
  The claim as written asks for a score of at least 75. Four hundred words over
  two thousand characters with no digit and no currency amount, tagged
  \<^verbatim>\<open>exa\<close>, score 25 + 25 + 0 + 10 = 60.
\<close>

theorem high_trust_dense_text_quality_counterexample:
  "2000 \<le> length plain_text
   \<and> 300 \<le> length (py_split plain_text)
   \<and> dict_get exa_task ''source'' '''' = ''exa''
   \<and> calculate_content_quality plain_text exa_task = 60
   \<and> \<not> 75 \<le> calculate_content_quality plain_text exa_task"
  by (simp add: plain_text_length plain_text_words exa_task_source plain_text_quality)

subsection \<open>The validator\<close>

lemma split_on_not_Nil: "split_on sep w s \<noteq> []"
  by (induction s arbitrary: w) simp_all

lemma py_index_split_sep: "py_index (py_split_sep s sep) 0 = Inr (hd (py_split_sep s sep))"
  using split_on_not_Nil [of sep "[]" s]
  by (simp add: py_index_def py_split_sep_def hd_conv_nth)

lemma viabilizar_total: "\<exists>ms. viabilizar p mods acc = Inr ms"
  by (induction mods arbitrary: acc) (simp_all add: py_index_split_sep)

lemma validate_closed_form:
  assumes "viabilizar (get_or (mj_preparacao_para_analises mj) []) modulos_possiveis [] = Inr ms"
  shows "validate_massive_data mj = Inr
     \<lparr>dados_suficientes_para_analise = (snapshot_total_chars mj \<ge> 50000),
      qualidade_aprovada = (snapshot_avg_quality mj \<ge> 60),
      modulos_viabilizados = ms,
      problemas_identificados =
        (if snapshot_total_chars mj \<ge> 50000 then [] else [volume_problem (snapshot_total_chars mj)])
        @ (if snapshot_avg_quality mj \<ge> 60 then [] else [quality_problem (snapshot_avg_quality mj)]),
      recomendacoes =
        (if snapshot_total_chars mj \<ge> 50000 then []
         else [''Execute nova coleta com mais APIs configuradas''])
        @ (if snapshot_avg_quality mj \<ge> 60 then []
           else [''Configure APIs premium para melhor qualidade''])
        @ (if length ms < 6
           then [''Dados insuficientes para alguns m'' @ [CHR 0xF3] @ ''dulos - configure mais fontes'']
           else [])\<rparr>"
proof -
  define t where "t = snapshot_total_chars mj"
  define q where "q = snapshot_avg_quality mj"
  show ?thesis
    unfolding validate_massive_data_def
    unfolding snapshot_total_chars_def [symmetric] snapshot_avg_quality_def [symmetric]
    unfolding t_def [symmetric] q_def [symmetric]
    by (cases "50000 \<le> t"; cases "60 \<le> q"; cases "length ms < 6")
       (simp_all add: Let_def assms volume_problem_def quality_problem_def)
qed

lemma volume_quality_problem_distinct: "volume_problem n \<noteq> quality_problem q"
  by (simp add: volume_problem_def quality_problem_def)

text \<open>
  Claim C5. For every snapshot the validator returns a report in which the volume
  is sufficient exactly when the snapshot's total of extracted characters is at
  least 50000, and otherwise the problem that names the total and the 50000
  required is recorded; the quality is approved exactly when the snapshot's average
  quality is at least 60, and otherwise the problem of low quality is recorded.
  The list of problems holds nothing else.
\<close>

theorem validator_thresholds:
  "\<exists>v. validate_massive_data mj = Inr v
     \<and> dados_suficientes_para_analise v = (50000 \<le> snapshot_total_chars mj)
     \<and> (volume_problem (snapshot_total_chars mj) \<in> set (problemas_identificados v))
         = (snapshot_total_chars mj < 50000)
     \<and> qualidade_aprovada v = (60 \<le> snapshot_avg_quality mj)
     \<and> (quality_problem (snapshot_avg_quality mj) \<in> set (problemas_identificados v))
         = (snapshot_avg_quality mj < 60)
     \<and> problemas_identificados v =
         (if 50000 \<le> snapshot_total_chars mj then []
          else [volume_problem (snapshot_total_chars mj)])
         @ (if 60 \<le> snapshot_avg_quality mj then []
            else [quality_problem (snapshot_avg_quality mj)])"
proof -
  obtain ms where
    ms: "viabilizar (get_or (mj_preparacao_para_analises mj) []) modulos_possiveis [] = Inr ms"
    using viabilizar_total by blast
  show ?thesis
    unfolding validate_closed_form [OF ms]
    using volume_quality_problem_distinct [of "snapshot_total_chars mj" "snapshot_avg_quality mj"]
    by (auto simp add: not_le)
qed

lemma borderline_snapshot_stats:
  "snapshot_total_chars borderline_snapshot = 50000"
  "snapshot_avg_quality borderline_snapshot = 119 / 2"
  by (simp_all add: snapshot_total_chars_def snapshot_avg_quality_def borderline_snapshot_def
      empty_massive_json_def empty_estatisticas_coleta_def get_or_def)

theorem validator_thresholds_witness:
  "\<exists>v. validate_massive_data borderline_snapshot = Inr v
     \<and> dados_suficientes_para_analise v
     \<and> \<not> qualidade_aprovada v
     \<and> problemas_identificados v = [quality_problem (119 / 2)]"
  using validator_thresholds [of borderline_snapshot]
  by (auto simp add: borderline_snapshot_stats)

subsection \<open>The validator on any dictionary\<close>

lemma map_of_entry:
  "map_of (entry k o_v @ rest) k' =
     (if k' = k then (case o_v of Some v \<Rightarrow> Some v | None \<Rightarrow> map_of rest k') else map_of rest k')"
  by (cases o_v) (simp_all add: entry_def)

lemma json_get_obj: "json_get (JObj d) k dflt = Inr (dict_get d k dflt)"
  by (simp add: json_get_def)

lemma json_get_not_obj: "\<forall>d. obj \<noteq> JObj d \<Longrightarrow> json_get obj k dflt = Inl AttributeError"
  by (cases obj) (simp_all add: json_get_def)

lemma json_ge_number: "is_number v \<Longrightarrow> \<exists>b. json_ge v n = Inr b"
  by (cases v) (simp_all add: json_ge_def is_number_def)

lemma json_ge_not_number: "\<not> is_number v \<Longrightarrow> json_ge v n = Inl TypeError"
  by (cases v) (simp_all add: json_ge_def is_number_def)

lemma viabilizar_dict_obj: "\<exists>ms. viabilizar_dict (JObj d) mods acc = Inr ms"
  by (induction mods arbitrary: acc) (simp_all add: py_index_split_sep)

lemma viabilizar_dict_not_obj:
  "\<forall>d. p \<noteq> JObj d \<Longrightarrow> mods \<noteq> [] \<Longrightarrow> viabilizar_dict p mods acc = Inl AttributeError"
  by (cases mods; cases p) simp_all

lemma modulos_possiveis_not_Nil: "modulos_possiveis \<noteq> []"
  by (simp add: modulos_possiveis_def)

lemma viabilizar_dict_preparacao:
  "viabilizar_dict (preparacao_dict prep) mods acc = viabilizar prep mods acc"
proof (induction mods arbitrary: acc)
  case Nil
  then show ?case by simp
next
  case (Cons m ms)
  have flag: "\<And>k. json_truthy (dict_get (map (\<lambda>(k, b). (k, JBool b)) prep) k (JBool False))
                 = dict_get prep k False"
    by (simp add: dict_get_def map_of_map json_truthy_def split: option.splits)
  show ?case
    using Cons.IH by (simp add: preparacao_dict_def py_index_split_sep flag)
qed

text \<open>What the validator finds under the keys it reads.\<close>

lemma section_cases:
  obtains (absent) "map_of d k = None" "dict_get d k (JObj []) = JObj []" "section_ok d k"
  | (dict) sec where "map_of d k = Some (JObj sec)" "dict_get d k (JObj []) = JObj sec"
      "section_ok d k"
  | (other) "\<forall>sec. dict_get d k (JObj []) \<noteq> JObj sec" "\<not> section_ok d k"
proof (cases "map_of d k")
  case None
  then show ?thesis
    using absent by (simp add: dict_get_def section_ok_def)
next
  case (Some v)
  then show ?thesis
    using dict other by (cases v) (simp_all add: dict_get_def section_ok_def)
qed

lemma validate_dict_reads:
  assumes "validator_can_read d"
  shows "\<exists>v. validate_massive_data_dict d = Inr v"
proof -
  from assms have ok: "section_ok d ''estatisticas_coleta''"
    "statistic_ok d ''total_caracteres_extraidos''"
    "statistic_ok d ''qualidade_media_conteudo''"
    "section_ok d ''preparacao_para_analises''"
    by (simp_all add: validator_can_read_def)
  obtain est where est: "dict_get d ''estatisticas_coleta'' (JObj []) = JObj est"
    and stat: "\<And>k. statistic_ok d k \<Longrightarrow> is_number (dict_get est k (JNum 0))"
  proof (cases d "''estatisticas_coleta''" rule: section_cases)
    case absent
    show ?thesis
      by (rule that [OF absent(2)]) (simp add: dict_get_def is_number_def)
  next
    case (dict sec)
    show ?thesis
      by (rule that [OF dict(2)])
         (simp add: statistic_ok_def dict(1) dict_get_def is_number_def split: option.splits)
  next
    case other
    with ok(1) show ?thesis by simp
  qed
  obtain prep where prep: "dict_get d ''preparacao_para_analises'' (JObj []) = JObj prep"
    using ok(4) by (cases d "''preparacao_para_analises''" rule: section_cases) auto
  obtain enough where enough:
    "json_ge (dict_get est ''total_caracteres_extraidos'' (JNum 0)) 50000 = Inr enough"
    using json_ge_number [OF stat [OF ok(2)]] by blast
  obtain good where good:
    "json_ge (dict_get est ''qualidade_media_conteudo'' (JNum 0)) 60 = Inr good"
    using json_ge_number [OF stat [OF ok(3)]] by blast
  obtain ms where ms: "viabilizar_dict (JObj prep) modulos_possiveis [] = Inr ms"
    using viabilizar_dict_obj by blast
  show ?thesis
    unfolding validate_massive_data_dict_def est prep json_get_obj
    by (cases enough; cases good) (simp_all add: Let_def enough good ms)
qed

lemma validate_dict_raises:
  assumes "\<not> validator_can_read d"
  shows "validate_massive_data_dict d = Inl AttributeError
         \<or> validate_massive_data_dict d = Inl TypeError"
proof (cases d "''estatisticas_coleta''" rule: section_cases)
  case other
  then show ?thesis
    by (simp add: validate_massive_data_dict_def json_get_not_obj)
next
  case absent
  then have stats: "statistic_ok d ''total_caracteres_extraidos''"
    "statistic_ok d ''qualidade_media_conteudo''"
    by (simp_all add: statistic_ok_def)
  with assms absent have "\<not> section_ok d ''preparacao_para_analises''"
    by (simp add: validator_can_read_def)
  then have p: "\<forall>sec. dict_get d ''preparacao_para_analises'' (JObj []) \<noteq> JObj sec"
    by (cases d "''preparacao_para_analises''" rule: section_cases) auto
  have nil: "\<And>k. dict_get [] k (JNum 0) = JNum 0"
    by (simp add: dict_get_def)
  show ?thesis
    unfolding validate_massive_data_dict_def absent(2) json_get_obj nil
    by (simp add: json_ge_def Let_def viabilizar_dict_not_obj [OF p modulos_possiveis_not_Nil])
next
  case (dict est)
  have stat: "\<And>k. statistic_ok d k = is_number (dict_get est k (JNum 0))"
    by (simp add: statistic_ok_def dict(1) dict_get_def is_number_def split: option.splits)
  show ?thesis
  proof (cases "is_number (dict_get est ''total_caracteres_extraidos'' (JNum 0))")
    case False
    then show ?thesis
      unfolding validate_massive_data_dict_def dict(2) json_get_obj
      by (simp add: json_ge_not_number)
  next
    case total: True
    then obtain enough where enough:
      "json_ge (dict_get est ''total_caracteres_extraidos'' (JNum 0)) 50000 = Inr enough"
      using json_ge_number by blast
    show ?thesis
    proof (cases "is_number (dict_get est ''qualidade_media_conteudo'' (JNum 0))")
      case False
      then show ?thesis
        unfolding validate_massive_data_dict_def dict(2) json_get_obj
        by (simp add: enough json_ge_not_number Let_def)
    next
      case quality: True
      then obtain good where good:
        "json_ge (dict_get est ''qualidade_media_conteudo'' (JNum 0)) 60 = Inr good"
        using json_ge_number by blast
      from assms dict(3) total quality have "\<not> section_ok d ''preparacao_para_analises''"
        by (simp add: validator_can_read_def stat)
      then have p: "\<forall>sec. dict_get d ''preparacao_para_analises'' (JObj []) \<noteq> JObj sec"
        by (cases d "''preparacao_para_analises''" rule: section_cases) auto
      show ?thesis
        unfolding validate_massive_data_dict_def dict(2) json_get_obj
        by (simp add: enough good Let_def
            viabilizar_dict_not_obj [OF p modulos_possiveis_not_Nil])
    qed
  qed
qed

lemma map_of_entry_last:
  "map_of (entry k o_v) k' = (if k' = k then o_v else None)"
  by (cases o_v) (simp_all add: entry_def)

lemma view_sections:
  "dict_get (validator_view mj) ''estatisticas_coleta'' (JObj [])
     = (case mj_estatisticas_coleta mj of None \<Rightarrow> JObj [] | Some est \<Rightarrow> estatisticas_dict est)"
  "dict_get (validator_view mj) ''preparacao_para_analises'' (JObj [])
     = preparacao_dict (get_or (mj_preparacao_para_analises mj) [])"
  by (simp_all add: validator_view_def dict_get_def map_of_entry map_of_entry_last get_or_def
      preparacao_dict_def del: map_of_append split: option.splits)

lemma view_statistics:
  "json_get (dict_get (validator_view mj) ''estatisticas_coleta'' (JObj []))
     ''total_caracteres_extraidos'' (JNum 0) = Inr (JNum (of_nat (snapshot_total_chars mj)))"
  "json_get (dict_get (validator_view mj) ''estatisticas_coleta'' (JObj []))
     ''qualidade_media_conteudo'' (JNum 0) = Inr (JNum (snapshot_avg_quality mj))"
  unfolding view_sections
  by (simp_all add: estatisticas_dict_def json_get_def dict_get_def map_of_entry
      map_of_entry_last snapshot_total_chars_def snapshot_avg_quality_def get_or_def
      empty_estatisticas_coleta_def del: map_of_append split: option.splits)

lemma validate_dict_of_view:
  "\<exists>v. validate_massive_data mj = Inr v
       \<and> validate_massive_data_dict (validator_view mj) = Inr (as_dict_report v)"
proof -
  obtain ms where
    ms: "viabilizar (get_or (mj_preparacao_para_analises mj) []) modulos_possiveis [] = Inr ms"
    using viabilizar_total by blast
  define t where "t = snapshot_total_chars mj"
  define q where "q = snapshot_avg_quality mj"
  have ge: "json_ge (JNum (of_nat t)) 50000 = Inr (50000 \<le> t)"
    "json_ge (JNum q) 60 = Inr (60 \<le> q)"
    by (simp_all add: json_ge_def)
  have "validate_massive_data_dict (validator_view mj)
          = Inr (as_dict_report
              \<lparr>dados_suficientes_para_analise = (50000 \<le> t),
               qualidade_aprovada = (60 \<le> q),
               modulos_viabilizados = ms,
               problemas_identificados =
                 (if 50000 \<le> t then [] else [volume_problem t])
                 @ (if 60 \<le> q then [] else [quality_problem q]),
               recomendacoes =
                 (if 50000 \<le> t then []
                  else [''Execute nova coleta com mais APIs configuradas''])
                 @ (if 60 \<le> q then []
                    else [''Configure APIs premium para melhor qualidade''])
                 @ (if length ms < 6
                    then [''Dados insuficientes para alguns m'' @ [CHR 0xF3]
                          @ ''dulos - configure mais fontes'']
                    else [])\<rparr>)"
    unfolding validate_massive_data_dict_def view_statistics view_sections(2)
    unfolding t_def [symmetric] q_def [symmetric]
    by (cases "50000 \<le> t"; cases "60 \<le> q"; cases "length ms < 6")
       (simp_all add: Let_def ge ms viabilizar_dict_preparacao as_dict_report_def
          volume_problem_def quality_problem_def)
  with validate_closed_form [OF ms] show ?thesis
    by (simp add: t_def q_def)
qed

lemma validate_dict_empty:
  "validate_massive_data_dict [] = Inr
     \<lparr>dados_suficientes_para_analise = False,
      qualidade_aprovada = False,
      modulos_viabilizados = [],
      problemas_identificados =
        [[Lit ''Volume insuficiente: '', Fmt_json (JNum 0) [], Lit '' < 50000 caracteres''],
         [Lit ''Qualidade baixa: '', Fmt_json (JNum 0) [], Lit '' < 60'']],
      recomendacoes =
        [''Execute nova coleta com mais APIs configuradas'',
         ''Configure APIs premium para melhor qualidade'',
         ''Dados insuficientes para alguns m'' @ [CHR 0xF3] @ ''dulos - configure mais fontes'']\<rparr>"
  by (simp add: validate_massive_data_dict_def dict_get_def json_get_def json_ge_def
      json_truthy_def modulos_possiveis_def py_index_def py_split_sep_def Let_def)

text \<open>
  Claim C7, as amended. The validator raises no exception, and returns a report
  with its five fields, exactly on the dictionaries in which the two sections it
  reads (\<^verbatim>\<open>estatisticas_coleta\<close>, \<^verbatim>\<open>preparacao_para_analises\<close>) are absent or
  dictionaries and the two statistics it compares (\<^verbatim>\<open>total_caracteres_extraidos\<close>,
  \<^verbatim>\<open>qualidade_media_conteudo\<close>) are absent or numbers. On every other dictionary
  it raises \<^verbatim>\<open>AttributeError\<close> or \<^verbatim>\<open>TypeError\<close>. The empty dictionary is one it
  reads: the report is volume insufficient, quality not approved, no module, the
  two problems and the three recommendations. Every snapshot of the shape the
  consolidator writes is one it reads, and the report on it is the report of
  \<open>validate_massive_data\<close>.
\<close>

theorem validator_total_on_readable_dictionaries:
  "((\<exists>v. validate_massive_data_dict d = Inr v) = validator_can_read d)
   \<and> (\<not> validator_can_read d \<longrightarrow>
         validate_massive_data_dict d = Inl AttributeError
         \<or> validate_massive_data_dict d = Inl TypeError)
   \<and> validator_can_read []
   \<and> validate_massive_data_dict [] = Inr
       \<lparr>dados_suficientes_para_analise = False,
        qualidade_aprovada = False,
        modulos_viabilizados = [],
        problemas_identificados =
          [[Lit ''Volume insuficiente: '', Fmt_json (JNum 0) [], Lit '' < 50000 caracteres''],
           [Lit ''Qualidade baixa: '', Fmt_json (JNum 0) [], Lit '' < 60'']],
        recomendacoes =
          [''Execute nova coleta com mais APIs configuradas'',
           ''Configure APIs premium para melhor qualidade'',
           ''Dados insuficientes para alguns m'' @ [CHR 0xF3] @ ''dulos - configure mais fontes'']\<rparr>
   \<and> validator_can_read (validator_view mj)
   \<and> (\<exists>v. validate_massive_data mj = Inr v
          \<and> validate_massive_data_dict (validator_view mj) = Inr (as_dict_report v))"
proof (intro conjI)
  show iff: "\<And>d. (\<exists>v. validate_massive_data_dict d = Inr v) = validator_can_read d"
  proof
    fix d
    assume returns: "\<exists>v. validate_massive_data_dict d = Inr v"
    show "validator_can_read d"
    proof (rule ccontr)
      assume "\<not> validator_can_read d"
      from validate_dict_raises [OF this] returns show False
        by auto
    qed
  next
    fix d
    assume "validator_can_read d"
    then show "\<exists>v. validate_massive_data_dict d = Inr v"
      by (rule validate_dict_reads)
  qed
  show "\<not> validator_can_read d \<longrightarrow>
         validate_massive_data_dict d = Inl AttributeError
         \<or> validate_massive_data_dict d = Inl TypeError"
    using validate_dict_raises by blast
  show "validator_can_read []"
    by (simp add: validator_can_read_def section_ok_def statistic_ok_def)
  show "validate_massive_data_dict [] = Inr
       \<lparr>dados_suficientes_para_analise = False,
        qualidade_aprovada = False,
        modulos_viabilizados = [],
        problemas_identificados =
          [[Lit ''Volume insuficiente: '', Fmt_json (JNum 0) [], Lit '' < 50000 caracteres''],
           [Lit ''Qualidade baixa: '', Fmt_json (JNum 0) [], Lit '' < 60'']],
        recomendacoes =
          [''Execute nova coleta com mais APIs configuradas'',
           ''Configure APIs premium para melhor qualidade'',
           ''Dados insuficientes para alguns m'' @ [CHR 0xF3] @ ''dulos - configure mais fontes'']\<rparr>"
    by (rule validate_dict_empty)
  show "\<exists>v. validate_massive_data mj = Inr v
          \<and> validate_massive_data_dict (validator_view mj) = Inr (as_dict_report v)"
    by (rule validate_dict_of_view)
  then show "validator_can_read (validator_view mj)"
    using iff [of "validator_view mj"] by blast
qed

theorem validator_total_on_readable_dictionaries_witness:
  "validator_can_read borderline_dict
   \<and> (\<exists>v. validate_massive_data_dict borderline_dict = Inr v)
   \<and> \<not> validator_can_read none_section_snapshot
   \<and> (validate_massive_data_dict none_section_snapshot = Inl AttributeError
        \<or> validate_massive_data_dict none_section_snapshot = Inl TypeError)"
proof -
  have r: "validator_can_read borderline_dict"
    by (simp add: validator_can_read_def section_ok_def statistic_ok_def is_number_def
        borderline_dict_def)
  have n: "\<not> validator_can_read none_section_snapshot"
    by (simp add: validator_can_read_def section_ok_def none_section_snapshot_def)
  from validator_total_on_readable_dictionaries [of borderline_dict empty_massive_json]
    validator_total_on_readable_dictionaries [of none_section_snapshot empty_massive_json] r n
  show ?thesis by blast
qed

text \<open>
  The claim as written has the validator raise on no input. A snapshot whose
  statistics section is \<^verbatim>\<open>None\<close>, one whose total of characters is a string, and
  one whose readiness map is \<^verbatim>\<open>None\<close> make it raise.
\<close>

theorem validator_total_counterexample:
  "validate_massive_data_dict none_section_snapshot = Inl AttributeError
   \<and> validate_massive_data_dict text_statistic_snapshot = Inl TypeError
   \<and> validate_massive_data_dict none_readiness_snapshot = Inl AttributeError"
  by (simp add: validate_massive_data_dict_def none_section_snapshot_def
      text_statistic_snapshot_def none_readiness_snapshot_def dict_get_def json_get_def
      json_ge_def modulos_possiveis_def Let_def)


subsection \<open>The consolidator\<close>

lemma py_mean_nonempty: "xs \<noteq> [] \<Longrightarrow> py_mean xs = Inr (sum_list xs / of_nat (length xs))"
  by (simp add: py_mean_def py_truediv_def)

lemma generate_automatic_insights_total:
  "\<exists>ins. generate_automatic_insights w so ws ex s = Inr ins"
  unfolding generate_automatic_insights_def Let_def
  by (cases "quality_scores s = []") (simp_all add: py_mean_nonempty split: option.splits list.splits)

lemma assess_data_quality_total: "\<exists>b. assess_data_quality_for_analysis ex = Inr b"
proof (cases "length (extracted_content ex) < 10")
  case True
  then show ?thesis by (auto simp add: assess_data_quality_for_analysis_def)
next
  case False
  then have "map doc_quality_score (extracted_content ex) \<noteq> []" by auto
  then show ?thesis
    using False by (auto simp add: assess_data_quality_for_analysis_def Let_def py_mean_nonempty)
qed

lemma quality_mean_total:
  "\<exists>q. (if quality_scores s \<noteq> [] then py_mean (quality_scores s) else Inr 0) = Inr q"
  by (simp add: py_mean_nonempty)

lemma consolidate_total:
  "\<exists>mj. consolidate_massive_json e w so ws ex query ctx sid s = Inr mj"
proof -
  obtain q where q: "(if quality_scores s \<noteq> [] then py_mean (quality_scores s) else Inr 0) = Inr q"
    using quality_mean_total by blast
  obtain ins where ins: "generate_automatic_insights w so ws ex s = Inr ins"
    using generate_automatic_insights_total by blast
  obtain b where b: "assess_data_quality_for_analysis ex = Inr b"
    using assess_data_quality_total by blast
  show ?thesis
    unfolding consolidate_massive_json_def q ins b by (simp add: Let_def)
qed

lemma consolidate_fields:
  assumes "consolidate_massive_json e w so ws ex query ctx sid s = Inr mj"
  shows "\<exists>q. mj_preparacao_para_analises mj = Some (consolidated_preparacao q)"
    and "\<exists>md. mj_metadata_coleta_massiva mj = Some md \<and> zero_simulacao md \<and> garantia_dados_reais md"
    and "\<exists>est. mj_estatisticas_coleta mj = Some est
           \<and> total_fontes_web est = Some (web_sources s)
           \<and> total_fontes_sociais est = Some (social_sources s)
           \<and> total_fontes_youtube est = Some (youtube_sources s)
           \<and> total_caracteres_extraidos est = Some (total_content_chars s)"
    and "\<exists>d. mj_dados_sociais_completos mj = Some d
           \<and> total_posts_sociais d = total_social_sources so"
    and "\<exists>c. mj_conteudo_extraido_massivo mj = Some c
           \<and> conteudo_completo c = extracted_content ex"
proof -
  obtain q where q: "(if quality_scores s \<noteq> [] then py_mean (quality_scores s) else Inr 0) = Inr q"
    using quality_mean_total by blast
  obtain ins where ins: "generate_automatic_insights w so ws ex s = Inr ins"
    using generate_automatic_insights_total by blast
  obtain b where b: "assess_data_quality_for_analysis ex = Inr b"
    using assess_data_quality_total by blast
  from assms have mj: "mj = (case consolidate_massive_json e w so ws ex query ctx sid s of Inr m \<Rightarrow> m)"
    by simp
  show "\<exists>q. mj_preparacao_para_analises mj = Some (consolidated_preparacao q)"
    unfolding mj consolidate_massive_json_def q ins b
    by (simp add: Let_def consolidated_preparacao_def)
  show "\<exists>md. mj_metadata_coleta_massiva mj = Some md \<and> zero_simulacao md \<and> garantia_dados_reais md"
    unfolding mj consolidate_massive_json_def q ins b
    by (simp add: Let_def)
  show "\<exists>est. mj_estatisticas_coleta mj = Some est
           \<and> total_fontes_web est = Some (web_sources s)
           \<and> total_fontes_sociais est = Some (social_sources s)
           \<and> total_fontes_youtube est = Some (youtube_sources s)
           \<and> total_caracteres_extraidos est = Some (total_content_chars s)"
    unfolding mj consolidate_massive_json_def q ins b
    by (simp add: Let_def)
  show "\<exists>d. mj_dados_sociais_completos mj = Some d
           \<and> total_posts_sociais d = total_social_sources so"
    unfolding mj consolidate_massive_json_def q ins b
    by (simp add: Let_def)
  show "\<exists>c. mj_conteudo_extraido_massivo mj = Some c
           \<and> conteudo_completo c = extracted_content ex"
    unfolding mj consolidate_massive_json_def q ins b
    by (simp add: Let_def)
qed

lemma viabilizar_consolidated:
  "viabilizar (consolidated_preparacao q) modulos_possiveis [] =
     Inr [''avatar_ultra_detalhado'', ''drivers_mentais_customizados'',
          ''predicoes_futuro'', ''posicionamento_estrategico'']"
  by (simp add: consolidated_preparacao_def modulos_possiveis_def py_index_def py_split_sep_def
      dict_get_def)

lemma consolidated_preparacao_all_ready:
  "list_all (\<lambda>m. dict_get (consolidated_preparacao q) (readiness_key m) False) modulos_possiveis"
  by (simp add: consolidated_preparacao_def modulos_possiveis_def readiness_key_def dict_get_def)

text \<open>
  Claim C1, evaluated on the code. The consolidator always produces a snapshot, and
  its readiness map marks each of the eight catalogued modules ready. On that
  snapshot the validator reports four modules feasible and leaves four out: it
  looks a module up under the first word of its name
  (\<^verbatim>\<open>modulo.split("_")[0]\<close>), and for \<^verbatim>\<open>provas_visuais_arsenal\<close>,
  \<^verbatim>\<open>sistema_anti_objecao\<close>, \<^verbatim>\<open>pre_pitch_invisivel\<close> and \<^verbatim>\<open>analise_concorrencia\<close>
  that is not the key the consolidator wrote. So the list is neither all eight nor
  empty, and a module marked ready can be missing from it.
\<close>

theorem consolidated_snapshot_feasible_modules:
  "\<exists>mj q v.
      consolidate_massive_json e w so ws ex query ctx sid s = Inr mj
    \<and> mj_preparacao_para_analises mj = Some (consolidated_preparacao q)
    \<and> list_all (\<lambda>m. dict_get (consolidated_preparacao q) (readiness_key m) False) modulos_possiveis
    \<and> validate_massive_data mj = Inr v
    \<and> modulos_viabilizados v =
        [''avatar_ultra_detalhado'', ''drivers_mentais_customizados'',
         ''predicoes_futuro'', ''posicionamento_estrategico'']
    \<and> length modulos_possiveis = 8"
proof -
  obtain mj where mj: "consolidate_massive_json e w so ws ex query ctx sid s = Inr mj"
    using consolidate_total by blast
  obtain q where q: "mj_preparacao_para_analises mj = Some (consolidated_preparacao q)"
    using consolidate_fields(1) [OF mj] by blast
  have "viabilizar (get_or (mj_preparacao_para_analises mj) []) modulos_possiveis [] =
          Inr [''avatar_ultra_detalhado'', ''drivers_mentais_customizados'',
               ''predicoes_futuro'', ''posicionamento_estrategico'']"
    unfolding q by (simp add: get_or_def viabilizar_consolidated)
  from validate_closed_form [OF this] obtain v where
    v: "validate_massive_data mj = Inr v"
       "modulos_viabilizados v =
          [''avatar_ultra_detalhado'', ''drivers_mentais_customizados'',
           ''predicoes_futuro'', ''posicionamento_estrategico'']"
    by simp
  have len: "length modulos_possiveis = 8"
    by (simp add: modulos_possiveis_def)
  from mj q v len consolidated_preparacao_all_ready [of q]
  show ?thesis by blast
qed

theorem consolidated_snapshot_feasible_modules_witness:
  "\<exists>mj v.
      consolidate_massive_json quiet_env no_web_results no_social_results empty_websailor_result
        no_extraction ''mercado'' JNull ''run-0001'' init_stats = Inr mj
    \<and> validate_massive_data mj = Inr v
    \<and> ''provas_visuais_arsenal'' \<notin> set (modulos_viabilizados v)
    \<and> ''avatar_ultra_detalhado'' \<in> set (modulos_viabilizados v)"
  using consolidated_snapshot_feasible_modules [of quiet_env no_web_results no_social_results
      empty_websailor_result no_extraction "''mercado''" JNull "''run-0001''" init_stats]
  by auto

subsection \<open>The extraction pool\<close>

lemma exa_task_url: "dict_item exa_task ''url'' = Inr ''https://example.org/a''"
  by (simp add: exa_task_def dict_item_def)

text \<open>
  Claim C6, as amended. A task yields no document exactly when the task has no
  URL, the extractor raises, the extractor finds nothing, or the text it finds has
  at most 200 characters; no error comes out of the task. Whenever the text has
  more than 200 characters, the task yields a document with that text, and
  appends its score to the statistics.
\<close>

theorem extraction_task_outcome:
  "((fst (extract_single_content e url_data i s) = None)
      = (case dict_item url_data ''url'' of
           Inl err \<Rightarrow> True
         | Inr u \<Rightarrow>
             (case extract_content e u of
                Inl err \<Rightarrow> True
              | Inr None \<Rightarrow> True
              | Inr (Some c) \<Rightarrow> length c \<le> 200)))
   \<and> (\<forall>u c. dict_item url_data ''url'' = Inr u \<and> extract_content e u = Inr (Some c)
              \<and> 200 < length c \<longrightarrow>
          (\<exists>d. extract_single_content e url_data i s
                  = (Some d, s\<lparr>quality_scores :=
                                 quality_scores s @ [calculate_content_quality c url_data]\<rparr>)
               \<and> doc_success d \<and> doc_url d = u \<and> doc_content d = c
               \<and> doc_content_length d = length c
               \<and> doc_quality_score d = calculate_content_quality c url_data))"
proof (cases "dict_item url_data ''url''")
  case (Inl err)
  then show ?thesis
    by (simp add: extract_single_content_def)
next
  case (Inr u)
  show ?thesis
  proof (cases "extract_content e u")
    case (Inl err)
    with Inr show ?thesis
      by (simp add: extract_single_content_def)
  next
    case found: (Inr content)
    show ?thesis
    proof (cases content)
      case None
      with Inr found show ?thesis
        by (simp add: extract_single_content_def)
    next
      case (Some c)
      with Inr found show ?thesis
        by (cases "200 < length c") (auto simp add: extract_single_content_def Let_def)
    qed
  qed
qed

theorem extraction_task_outcome_witness:
  "\<exists>d. extract_single_content pages_env exa_task 0 init_stats
          = (Some d, init_stats\<lparr>quality_scores := [60]\<rparr>)
       \<and> doc_content d = plain_text"
proof -
  have x: "extract_content pages_env ''https://example.org/a'' = Inr (Some plain_text)"
    by (simp add: pages_env_def scenario_env_def quiet_env_def)
  have l: "200 < length plain_text"
    by (simp add: plain_text_length)
  from extraction_task_outcome [of pages_env exa_task 0 init_stats] exa_task_url x l
  show ?thesis
    by (auto simp add: plain_text_quality init_stats_def)
qed

text \<open>
  The claim as written keeps every text of at least 200 characters. The test of
  the code is \<^verbatim>\<open>len(content) > 200\<close>: a text of exactly 200 characters is dropped.
\<close>

theorem extraction_task_outcome_counterexample:
  "200 \<le> length text_200
   \<and> extract_content env_200 ''https://example.org/a'' = Inr (Some text_200)
   \<and> extract_single_content env_200 exa_task 0 init_stats = (None, init_stats)"
  by (simp add: extract_single_content_def exa_task_url env_200_def scenario_env_def quiet_env_def
      text_200_def)

lemma success_rate_of_value:
  "success_rate_of extracted all_urls =
     Inr (if all_urls = [] then 0
          else of_nat (length extracted) / of_nat (length all_urls) * 100)"
  by (simp add: success_rate_of_def py_truediv_def)

lemma avg_content_length_of_value:
  "avg_content_length_of n_chars extracted =
     Inr (if extracted = [] then 0 else of_nat n_chars / of_nat (length extracted))"
  by (simp add: avg_content_length_of_def py_truediv_def)

lemma extract_massive_content_cases:
  obtains err where "websailor_url_tasks ws = Inl err"
      and "extract_massive_content e w so ws sid s = (Inl err, s)"
  | tasks futures s1 extracted s2 where "websailor_url_tasks ws = Inr tasks"
      and "run_extraction_tasks e
             (List.enumerate 0 (take 100 (web_url_tasks w @ social_url_tasks so @ tasks))) s
           = (futures, s1)"
      and "collect_extracted futures [] s1 = (extracted, s2)"
      and "extract_massive_content e w so ws sid s =
            (case salvar_etapa e ''extracao_massiva_completa'' of
               Some err \<Rightarrow> (Inl err, s2)
             | None \<Rightarrow>
                 (Inr \<lparr>total_urls_found =
                         length (web_url_tasks w @ social_url_tasks so @ tasks),
                       total_content_extracted = length extracted,
                       extraction_success_rate =
                         (if web_url_tasks w @ social_url_tasks so @ tasks = [] then 0
                          else of_nat (length extracted)
                               / of_nat (length (web_url_tasks w @ social_url_tasks so @ tasks))
                               * 100),
                       extracted_content = extracted,
                       extraction_stats =
                         \<lparr>es_total_chars = total_content_chars s2,
                          es_avg_content_length =
                            (if extracted = [] then 0
                             else of_nat (total_content_chars s2) / of_nat (length extracted)),
                          es_sources_by_type = categorize_sources extracted []\<rparr>\<rparr>, s2))"
proof (cases "websailor_url_tasks ws")
  case (Inl err)
  then show ?thesis
    using that(1) by (simp add: extract_massive_content_def)
next
  case (Inr tasks)
  obtain futures s1 where
    f: "run_extraction_tasks e
          (List.enumerate 0 (take 100 (web_url_tasks w @ social_url_tasks so @ tasks))) s
        = (futures, s1)"
    by (cases "run_extraction_tasks e
          (List.enumerate 0 (take 100 (web_url_tasks w @ social_url_tasks so @ tasks))) s")
  obtain extracted s2 where c: "collect_extracted futures [] s1 = (extracted, s2)"
    by (cases "collect_extracted futures [] s1")
  show ?thesis
  proof (rule that(2) [OF Inr f c])
    show "extract_massive_content e w so ws sid s =
            (case salvar_etapa e ''extracao_massiva_completa'' of
               Some err \<Rightarrow> (Inl err, s2)
             | None \<Rightarrow>
                 (Inr \<lparr>total_urls_found =
                         length (web_url_tasks w @ social_url_tasks so @ tasks),
                       total_content_extracted = length extracted,
                       extraction_success_rate =
                         (if web_url_tasks w @ social_url_tasks so @ tasks = [] then 0
                          else of_nat (length extracted)
                               / of_nat (length (web_url_tasks w @ social_url_tasks so @ tasks))
                               * 100),
                       extracted_content = extracted,
                       extraction_stats =
                         \<lparr>es_total_chars = total_content_chars s2,
                          es_avg_content_length =
                            (if extracted = [] then 0
                             else of_nat (total_content_chars s2) / of_nat (length extracted)),
                          es_sources_by_type = categorize_sources extracted []\<rparr>\<rparr>, s2))"
      unfolding extract_massive_content_def Inr
      by (simp only: sum.case Let_def f c prod.case success_rate_of_value
          avg_content_length_of_value)
  qed
qed

text \<open>
  Claim C8. The success rate is the number of pages extracted divided by the number
  of URLs found, times 100, and 0 when no URL was found; the average content length
  is 0 when no page was extracted; neither computation divides by zero. The
  extraction phase raises only what the navigator's sources raise
  (\<^verbatim>\<open>fonte['url']\<close>) or what the step store raises, and the rate of the result
  it returns is the one of its own two counts.
\<close>

theorem extraction_statistics_no_division_fault:
  "success_rate_of extracted all_urls =
     Inr (if length all_urls = 0 then 0
          else of_nat (length extracted) / of_nat (length all_urls) * 100)
   \<and> avg_content_length_of n_chars extracted =
       Inr (if length extracted = 0 then 0 else of_nat n_chars / of_nat (length extracted))
   \<and> (\<forall>err. fst (extract_massive_content e w so ws sid s) = Inl err \<longrightarrow>
         websailor_url_tasks ws = Inl err
         \<or> salvar_etapa e ''extracao_massiva_completa'' = Some err)
   \<and> (\<forall>r. fst (extract_massive_content e w so ws sid s) = Inr r \<longrightarrow>
         extraction_success_rate r =
           (if total_urls_found r = 0 then 0
            else of_nat (total_content_extracted r) / of_nat (total_urls_found r) * 100)
         \<and> es_avg_content_length (extraction_stats r) =
           (if total_content_extracted r = 0 then 0
            else of_nat (es_total_chars (extraction_stats r))
                 / of_nat (total_content_extracted r)))"
proof (intro conjI)
  show "success_rate_of extracted all_urls =
     Inr (if length all_urls = 0 then 0
          else of_nat (length extracted) / of_nat (length all_urls) * 100)"
    by (simp add: success_rate_of_value)
  show "avg_content_length_of n_chars extracted =
       Inr (if length extracted = 0 then 0 else of_nat n_chars / of_nat (length extracted))"
    by (simp add: avg_content_length_of_value)
  show "\<forall>err. fst (extract_massive_content e w so ws sid s) = Inl err \<longrightarrow>
         websailor_url_tasks ws = Inl err
         \<or> salvar_etapa e ''extracao_massiva_completa'' = Some err"
    by (rule extract_massive_content_cases [of ws e w so sid s])
       (auto split: option.splits)
  show "\<forall>r. fst (extract_massive_content e w so ws sid s) = Inr r \<longrightarrow>
         extraction_success_rate r =
           (if total_urls_found r = 0 then 0
            else of_nat (total_content_extracted r) / of_nat (total_urls_found r) * 100)
         \<and> es_avg_content_length (extraction_stats r) =
           (if total_content_extracted r = 0 then 0
            else of_nat (es_total_chars (extraction_stats r))
                 / of_nat (total_content_extracted r))"
    by (rule extract_massive_content_cases [of ws e w so sid s])
       (auto split: option.splits)
qed


subsection \<open>The social phase\<close>

lemma search_tiktok: "search_social_platform_massive e ''tiktok'' query = simulate_platform_data ''tiktok'' query"
  by (simp add: search_social_platform_massive_def)

lemma search_facebook: "search_social_platform_massive e ''facebook'' query = simulate_platform_data ''facebook'' query"
  by (simp add: search_social_platform_massive_def)

lemma platform_count_simulate: "platform_count (simulate_platform_data platform query) = 1"
  by (simp add: platform_count_def simulate_platform_data_def truthy_def get_or_def)

lemma platform_count_empty: "platform_count empty_platform_result = 0"
  by (simp add: platform_count_def empty_platform_result_def truthy_def)

lemma collect_social_step:
  "collect_social_results ((p, r) # rest) social s =
     collect_social_results rest
       (social\<lparr>platform_data := AList.update (p @ ''_data'') r (platform_data social),
               total_social_sources := total_social_sources social + platform_count r\<rparr>)
       (if p = ''youtube'' then s\<lparr>youtube_sources := youtube_sources s + platform_count r\<rparr>
        else s\<lparr>social_sources := social_sources s + platform_count r\<rparr>)"
  by (simp add: platform_count_def Let_def)

lemma collect_massive_social_data_closed_form:
  "collect_massive_social_data e query ctx sid s =
     (case salvar_etapa e ''social_data_massive'' of
        Some err \<Rightarrow> Inl err
      | None \<Rightarrow> Inr
          \<lparr>platform_data =
             [(''youtube_data'', search_social_platform_massive e ''youtube'' query),
              (''twitter_data'', search_social_platform_massive e ''twitter'' query),
              (''linkedin_data'', search_social_platform_massive e ''linkedin'' query),
              (''instagram_data'', search_social_platform_massive e ''instagram'' query),
              (''tiktok_data'', simulate_platform_data ''tiktok'' query),
              (''facebook_data'', simulate_platform_data ''facebook'' query)],
           total_social_sources =
             platform_count (search_social_platform_massive e ''youtube'' query)
             + platform_count (search_social_platform_massive e ''twitter'' query)
             + platform_count (search_social_platform_massive e ''linkedin'' query)
             + platform_count (search_social_platform_massive e ''instagram'' query)
             + 1 + 1\<rparr>,
      s\<lparr>youtube_sources :=
           youtube_sources s + platform_count (search_social_platform_massive e ''youtube'' query),
         social_sources :=
           social_sources s
           + platform_count (search_social_platform_massive e ''twitter'' query)
           + platform_count (search_social_platform_massive e ''linkedin'' query)
           + platform_count (search_social_platform_massive e ''instagram'' query)
           + 1 + 1\<rparr>)"
  unfolding collect_massive_social_data_def platforms_def
  by (simp add: Let_def collect_social_step search_tiktok search_facebook platform_count_simulate
      del: collect_social_results.simps(2) split: option.splits)

text \<open>
  Claim C10. For TikTok and Facebook the social search is the simulated result
  set, whatever the collaborators are: one item, flagged simulated, with the URL
  \<^verbatim>\<open>https://<platform>.com/example\<close>. It does not raise. The social phase
  therefore counts one source for each of the two on every run, on top of what
  Twitter, LinkedIn and Instagram return, and stores the simulated sets under
  \<^verbatim>\<open>tiktok_data\<close> and \<^verbatim>\<open>facebook_data\<close>. The metadata of every consolidated
  snapshot nevertheless record \<^verbatim>\<open>zero_simulacao\<close> and \<^verbatim>\<open>garantia_dados_reais\<close>
  as true.
\<close>

theorem simulated_social_platforms:
  "search_social_platform_massive e ''tiktok'' query = simulate_platform_data ''tiktok'' query
   \<and> search_social_platform_massive e ''facebook'' query
       = simulate_platform_data ''facebook'' query
   \<and> pr_results (simulate_platform_data platform query) = Some
       [\<lparr>item_title = Some (''Conte'' @ [CHR 0xFA] @ ''do '' @ platform @ '' sobre '' @ query),
         item_url = Some (''https://'' @ platform @ ''.com/example''),
         item_text = Some (''Conte'' @ [CHR 0xFA] @ ''do simulado sobre '' @ query
                           @ '' na plataforma '' @ platform),
         item_caption = None,
         item_platform = Some platform,
         item_simulated = Some True\<rparr>]
   \<and> social_sources (snd (collect_massive_social_data e query ctx sid s))
       = social_sources s
         + platform_count (search_social_platform_massive e ''twitter'' query)
         + platform_count (search_social_platform_massive e ''linkedin'' query)
         + platform_count (search_social_platform_massive e ''instagram'' query)
         + 1 + 1
   \<and> (\<forall>so. fst (collect_massive_social_data e query ctx sid s) = Inr so \<longrightarrow>
         dict_get (platform_data so) ''tiktok_data'' empty_platform_result
           = simulate_platform_data ''tiktok'' query
         \<and> dict_get (platform_data so) ''facebook_data'' empty_platform_result
           = simulate_platform_data ''facebook'' query
         \<and> 2 \<le> total_social_sources so)
   \<and> (\<exists>mj md. consolidate_massive_json e w so' ws ex query ctx sid s' = Inr mj
         \<and> mj_metadata_coleta_massiva mj = Some md
         \<and> zero_simulacao md \<and> garantia_dados_reais md)"
proof (intro conjI)
  show "search_social_platform_massive e ''tiktok'' query = simulate_platform_data ''tiktok'' query"
    by (rule search_tiktok)
  show "search_social_platform_massive e ''facebook'' query
          = simulate_platform_data ''facebook'' query"
    by (rule search_facebook)
  show "pr_results (simulate_platform_data platform query) = Some
       [\<lparr>item_title = Some (''Conte'' @ [CHR 0xFA] @ ''do '' @ platform @ '' sobre '' @ query),
         item_url = Some (''https://'' @ platform @ ''.com/example''),
         item_text = Some (''Conte'' @ [CHR 0xFA] @ ''do simulado sobre '' @ query
                           @ '' na plataforma '' @ platform),
         item_caption = None,
         item_platform = Some platform,
         item_simulated = Some True\<rparr>]"
    by (simp add: simulate_platform_data_def)
  show "social_sources (snd (collect_massive_social_data e query ctx sid s))
       = social_sources s
         + platform_count (search_social_platform_massive e ''twitter'' query)
         + platform_count (search_social_platform_massive e ''linkedin'' query)
         + platform_count (search_social_platform_massive e ''instagram'' query)
         + 1 + 1"
    unfolding collect_massive_social_data_closed_form by simp
  show "\<forall>so. fst (collect_massive_social_data e query ctx sid s) = Inr so \<longrightarrow>
         dict_get (platform_data so) ''tiktok_data'' empty_platform_result
           = simulate_platform_data ''tiktok'' query
         \<and> dict_get (platform_data so) ''facebook_data'' empty_platform_result
           = simulate_platform_data ''facebook'' query
         \<and> 2 \<le> total_social_sources so"
    unfolding collect_massive_social_data_closed_form
    by (auto simp add: dict_get_def split: option.splits)
  obtain mj where mj: "consolidate_massive_json e w so' ws ex query ctx sid s' = Inr mj"
    using consolidate_total by blast
  from consolidate_fields(2) [OF mj] mj
  show "\<exists>mj md. consolidate_massive_json e w so' ws ex query ctx sid s' = Inr mj
         \<and> mj_metadata_coleta_massiva mj = Some md
         \<and> zero_simulacao md \<and> garantia_dados_reais md"
    by blast
qed

lemma quiet_social_counts:
  "platform_count (search_social_platform_massive quiet_env ''youtube'' query) = 0"
  "platform_count (search_social_platform_massive quiet_env ''twitter'' query) = 0"
  "platform_count (search_social_platform_massive quiet_env ''linkedin'' query) = 0"
  "platform_count (search_social_platform_massive quiet_env ''instagram'' query) = 0"
  by (simp_all add: search_social_platform_massive_def quiet_env_def platform_count_empty)

theorem simulated_social_platforms_witness:
  "social_sources (snd (collect_massive_social_data quiet_env ''mercado'' JNull ''run-0001''
                          init_stats)) = 2
   \<and> (\<exists>so. fst (collect_massive_social_data quiet_env ''mercado'' JNull ''run-0001'' init_stats)
               = Inr so
          \<and> dict_get (platform_data so) ''tiktok_data'' empty_platform_result
              = simulate_platform_data ''tiktok'' ''mercado'')"
proof -
  have r: "\<exists>so. fst (collect_massive_social_data quiet_env ''mercado'' JNull ''run-0001''
                       init_stats) = Inr so"
    unfolding collect_massive_social_data_closed_form by (simp add: quiet_env_def)
  from simulated_social_platforms [of quiet_env "''mercado''" "''tiktok''" JNull "''run-0001''"
      init_stats quiet_web "quiet_social ''mercado''" empty_websailor_result no_extraction
      init_stats] r
  show ?thesis
    by (auto simp add: quiet_social_counts init_stats_def)
qed

subsection \<open>Runs of the pipeline with quiet search clients\<close>

lemma scenario_env_fields:
  "exa_is_available (scenario_env x w) = False"
  "search_google (scenario_env x w) q n = Inr []"
  "search_serper (scenario_env x w) q n = Inl (OtherError ''no API key'')"
  "search_bing (scenario_env x w) q n = Inr []"
  "search_youtube (scenario_env x w) q n = Inr empty_platform_result"
  "search_twitter (scenario_env x w) q n = Inr empty_platform_result"
  "search_linkedin (scenario_env x w) q n = Inl TimeoutError"
  "search_instagram (scenario_env x w) q n = Inr empty_platform_result"
  "navigate_and_research_deep (scenario_env x w) q c pages depth sid = Inr empty_websailor_result"
  "extract_content (scenario_env x w) = x"
  "salvar_etapa (scenario_env x w) name = None"
  "salvar_erro (scenario_env x w) name err q = None"
  "write_json_file (scenario_env x w) = w"
  "now_stamp (scenario_env x w) = ''20240101_000000''"
  by (simp_all add: scenario_env_def quiet_env_def)

lemma web_phase_quiet:
  "collect_massive_web_data (scenario_env x w) query ctx sid s =
     (Inr quiet_web,
      s\<lparr>sources_by_provider :=
           AList.update ''duckduckgo'' 0 (AList.update ''bing'' 0 (AList.update ''serper'' 0
             (AList.update ''google'' 0 (sources_by_provider s)))),
        web_sources := 0\<rparr>)"
  by (simp add: collect_massive_web_data_def web_futures_def search_google_massive_def
      search_serper_massive_def search_bing_massive_def search_duckduckgo_massive_def
      scenario_env_fields quiet_web_def Let_def)

lemma social_search_quiet:
  "search_social_platform_massive (scenario_env x w) ''youtube'' query = empty_platform_result"
  "search_social_platform_massive (scenario_env x w) ''twitter'' query = empty_platform_result"
  "search_social_platform_massive (scenario_env x w) ''linkedin'' query = empty_platform_result"
  "search_social_platform_massive (scenario_env x w) ''instagram'' query = empty_platform_result"
  by (simp_all add: search_social_platform_massive_def scenario_env_fields)

lemma social_phase_quiet:
  "collect_massive_social_data (scenario_env x w) query ctx sid s =
     (Inr (quiet_social query), s\<lparr>social_sources := social_sources s + 2\<rparr>)"
  unfolding collect_massive_social_data_closed_form
  by (simp add: social_search_quiet platform_count_empty scenario_env_fields quiet_social_def)

lemma websailor_phase_quiet:
  "collect_websailor_deep_data (scenario_env x w) query ctx sid = empty_websailor_result"
  by (simp add: collect_websailor_deep_data_def scenario_env_fields)

lemma quiet_url_tasks:
  "web_url_tasks quiet_web = []"
  "social_url_tasks (quiet_social query)
     = [simulated_task ''tiktok'' query, simulated_task ''facebook'' query]"
  "websailor_url_tasks empty_websailor_result = Inr []"
  by (simp_all add: web_url_tasks_def quiet_web_def social_url_tasks_def quiet_social_def
      empty_platform_result_def simulate_platform_data_def simulated_task_def truthy_def
      get_or_def websailor_url_tasks_def empty_websailor_result_def
      empty_conteudo_consolidado_def)

lemma simulated_task_url:
  "dict_item (simulated_task platform query) ''url'' = Inr (''https://'' @ platform @ ''.com/example'')"
  by (simp add: simulated_task_def dict_item_def)

lemma extraction_phase_nothing_found:
  "extract_massive_content (scenario_env (\<lambda>u. Inr None) w) quiet_web (quiet_social query)
     empty_websailor_result sid s =
     (Inr \<lparr>total_urls_found = 2, total_content_extracted = 0, extraction_success_rate = 0,
           extracted_content = [],
           extraction_stats =
             \<lparr>es_total_chars = total_content_chars s, es_avg_content_length = 0,
              es_sources_by_type = []\<rparr>\<rparr>, s)"
  by (simp add: extract_massive_content_def quiet_url_tasks extract_single_content_def
      simulated_task_url scenario_env_fields success_rate_of_value avg_content_length_of_value
      Let_def enumerate_simps)

theorem extraction_statistics_no_division_fault_witness:
  "success_rate_of ([] :: extracted_document list) ([] :: (string \<times> string) list list) = Inr 0
   \<and> avg_content_length_of 0 ([] :: extracted_document list) = Inr 0
   \<and> (\<exists>r. fst (extract_massive_content quiet_env quiet_web (quiet_social ''mercado'')
                    empty_websailor_result ''run-0001'' init_stats) = Inr r
          \<and> total_urls_found r = 2 \<and> total_content_extracted r = 0
          \<and> extraction_success_rate r = 0
          \<and> es_avg_content_length (extraction_stats r) = 0)"
proof -
  have q: "quiet_env = scenario_env (\<lambda>u. Inr None) (\<lambda>path mj. None)"
    by (simp add: scenario_env_def quiet_env_def)
  from extraction_statistics_no_division_fault
         [of "[] :: extracted_document list" "[] :: (string \<times> string) list list" 0
             quiet_env quiet_web "quiet_social ''mercado''" empty_websailor_result
             "''run-0001''" init_stats]
  show ?thesis
    unfolding q extraction_phase_nothing_found by simp
qed

lemma quiet_run_until_snapshot:
  "\<exists>mj. collect_and_consolidate (scenario_env (\<lambda>u. Inr None) w) query ctx sid None s =
          (Inr mj,
           s\<lparr>sources_by_provider :=
                AList.update ''duckduckgo'' 0 (AList.update ''bing'' 0 (AList.update ''serper'' 0
                  (AList.update ''google'' 0 (sources_by_provider s)))),
             web_sources := 0,
             social_sources := social_sources s + 2\<rparr>)"
proof -
  define s2 where "s2 =
    s\<lparr>sources_by_provider :=
         AList.update ''duckduckgo'' 0 (AList.update ''bing'' 0 (AList.update ''serper'' 0
           (AList.update ''google'' 0 (sources_by_provider s)))),
      web_sources := 0,
      social_sources := social_sources s + 2\<rparr>"
  define ex where "ex =
    \<lparr>total_urls_found = 2, total_content_extracted = 0, extraction_success_rate = 0,
     extracted_content = [],
     extraction_stats =
       \<lparr>es_total_chars = total_content_chars s2, es_avg_content_length = 0,
        es_sources_by_type = []\<rparr>\<rparr>"
  obtain mj where mj:
    "consolidate_massive_json (scenario_env (\<lambda>u. Inr None) w) quiet_web (quiet_social query)
       empty_websailor_result ex query ctx sid s2 = Inr mj"
    using consolidate_total by blast
  have "collect_and_consolidate (scenario_env (\<lambda>u. Inr None) w) query ctx sid None s = (Inr mj, s2)"
    unfolding collect_and_consolidate_def
    using mj
    by (simp add: then_do_def bind_run_def progress_def scenario_env_fields web_phase_quiet
        social_phase_quiet websailor_phase_quiet extraction_phase_nothing_found s2_def ex_def)
  then show ?thesis unfolding s2_def by blast
qed

lemma save_disk_full: "save_massive_json disk_full_env mj sid = Inl disk_full"
  by (simp add: save_massive_json_def disk_full_env_def scenario_env_fields)

text \<open>
  Claim C3, as amended. If the run reaches the saving phase and the save raises,
  \<^verbatim>\<open>collect_massive_data\<close> hands the exception and the query to the error store
  and raises that same exception again, unchanged; when the error store itself
  raises, that exception comes out instead. The pipeline adds nothing to the
  exception: what it carries is what the failed save, or the error store, put
  into it. No result is returned, and the statistics stay as the earlier phases
  left them.
\<close>

theorem save_failure_is_reraised:
  assumes "collect_and_consolidate e query ctx sid progress_callback s = (Inr mj, s1)"
    and "progress progress_callback 11 = None"
    and "save_massive_json e mj sid = Inl err"
  shows "collect_massive_data e query ctx sid progress_callback s =
           (Inl (case salvar_erro e ''coleta_massiva_erro'' err query of
                   Some err2 \<Rightarrow> err2
                 | None \<Rightarrow> err), s1)
         \<and> (\<forall>r. fst (collect_massive_data e query ctx sid progress_callback s) \<noteq> Inr r)"
  unfolding collect_massive_data_def collect_try_def
  using assms
  by (simp add: bind_run_def then_do_def split: option.splits)

theorem save_failure_is_reraised_witness:
  "\<exists>mj s1. collect_and_consolidate disk_full_env ''mercado'' JNull ''run-0001'' None init_stats
              = (Inr mj, s1)
     \<and> progress None 11 = None
     \<and> save_massive_json disk_full_env mj ''run-0001'' = Inl disk_full
     \<and> collect_massive_data disk_full_env ''mercado'' JNull ''run-0001'' None init_stats
         = (Inl disk_full, s1)"
proof -
  obtain mj s1 where
    c: "collect_and_consolidate disk_full_env ''mercado'' JNull ''run-0001'' None init_stats
          = (Inr mj, s1)"
    unfolding disk_full_env_def using quiet_run_until_snapshot by blast
  have p: "progress None 11 = None"
    by (simp add: progress_def)
  have e: "salvar_erro disk_full_env ''coleta_massiva_erro'' disk_full ''mercado'' = None"
    by (simp add: disk_full_env_def scenario_env_fields)
  from save_failure_is_reraised [OF c p save_disk_full] c p e save_disk_full [of mj "''run-0001''"]
  show ?thesis by auto
qed

lemma disk_full_run:
  "fst (collect_massive_data disk_full_env query ctx sid None s) = Inl disk_full"
proof -
  obtain mj s1 where
    c: "collect_and_consolidate disk_full_env query ctx sid None s = (Inr mj, s1)"
    unfolding disk_full_env_def using quiet_run_until_snapshot by blast
  show ?thesis
    unfolding collect_massive_data_def collect_try_def c
    by (simp add: bind_run_def then_do_def progress_def save_disk_full)
       (simp add: disk_full_env_def scenario_env_fields)
qed

text \<open>
  An exception of the file system that names the file carries what the file name
  holds of the run identifier, its first eight characters.
\<close>

lemma permission_denied_run:
  "fst (collect_massive_data permission_env ''mercado'' JNull ''run-0001-of-today'' None
          init_stats)
     = Inl (OtherError (''[Errno 13] Permission denied: ''
              @ ''analyses_data/massive_data/massive_data_run-0001_20240101_000000.json''))
   \<and> occurs_in ''run-0001''
         (exn_text (OtherError (''[Errno 13] Permission denied: ''
              @ ''analyses_data/massive_data/massive_data_run-0001_20240101_000000.json'')))"
proof -
  obtain mj s1 where
    c: "collect_and_consolidate permission_env ''mercado'' JNull ''run-0001-of-today'' None
          init_stats = (Inr mj, s1)"
    unfolding permission_env_def using quiet_run_until_snapshot by blast
  have run: "fst (collect_massive_data permission_env ''mercado'' JNull ''run-0001-of-today''
                    None init_stats)
     = Inl (OtherError (''[Errno 13] Permission denied: ''
              @ ''analyses_data/massive_data/massive_data_run-0001_20240101_000000.json''))"
    unfolding collect_massive_data_def collect_try_def c
    by (simp add: bind_run_def then_do_def progress_def save_massive_json_def
        permission_env_def scenario_env_fields)
  have "occurs_in ''run-0001''
         (''[Errno 13] Permission denied: ''
              @ ''analyses_data/massive_data/massive_data_run-0001_20240101_000000.json'')"
    by simp
  with run show ?thesis
    by (simp add: exn_text_def)
qed

text \<open>
  The claim as written has the fatal error carry the run identifier and the
  query. With a file system that has no space left, two runs with different
  identifiers and queries raise one and the same exception, the one of the file
  system, and neither the identifier nor the query occurs in it.
\<close>

theorem save_failure_is_reraised_counterexample:
  "fst (collect_massive_data disk_full_env ''mercado'' JNull ''run-0001'' None init_stats)
     = Inl (OtherError ''[Errno 28] No space left on device'')
   \<and> fst (collect_massive_data disk_full_env ''turismo'' JNull ''run-0002'' None init_stats)
     = Inl (OtherError ''[Errno 28] No space left on device'')
   \<and> \<not> occurs_in ''run-0001'' (exn_text (OtherError ''[Errno 28] No space left on device''))
   \<and> \<not> occurs_in ''mercado'' (exn_text (OtherError ''[Errno 28] No space left on device''))"
proof -
  have "\<not> occurs_in ''run-0001'' ''[Errno 28] No space left on device''"
    by simp
  moreover have "\<not> occurs_in ''mercado'' ''[Errno 28] No space left on device''"
    by simp
  ultimately show ?thesis
    using disk_full_run [of "''mercado''" JNull "''run-0001''" init_stats]
      disk_full_run [of "''turismo''" JNull "''run-0002''" init_stats]
    by (simp add: disk_full_def exn_text_def)
qed


subsection \<open>Two runs of the one collector\<close>

lemma long_text_length: "length long_text = 12500"
  by (simp add: long_text_def length_concat sum_list_replicate)

lemma long_text_words: "length (py_split long_text) = 2500"
  by (simp add: long_text_def py_split_replicate_abcd)

lemma long_text_numbers: "re_findall match_number long_text = []"
  unfolding re_findall_def long_text_def
  by (rule findall_number_no_digit) (simp add: is_digit_def)

lemma long_text_money: "re_findall match_money long_text = []"
  unfolding re_findall_def long_text_def
  by (rule findall_money_no_R) simp

lemma simulated_task_get:
  "dict_get (simulated_task platform query) ''source'' d = platform"
  "dict_get (simulated_task platform query) ''title'' d
     = ''Conte'' @ [CHR 0xFA] @ ''do '' @ platform @ '' sobre '' @ query"
  "dict_get (simulated_task platform query) ''snippet'' d
     = take 200 (''Conte'' @ [CHR 0xFA] @ ''do simulado sobre '' @ query
                 @ '' na plataforma '' @ platform)"
  by (simp_all add: simulated_task_def dict_get_def)

lemma long_text_quality:
  "calculate_content_quality long_text (simulated_task ''tiktok'' query) = 50"
  "calculate_content_quality long_text (simulated_task ''facebook'' query) = 50"
  unfolding calculate_content_quality_components long_text_length long_text_words
    long_text_numbers long_text_money simulated_task_get
  by (simp_all add: size_component_def density_component_def data_evidence_component_def
      source_trust_component_def)

lemma long_text_kept: "long_text \<noteq> [] \<and> 200 < length long_text"
  using long_text_length by auto

lemma extraction_phase_long_pages:
  "\<exists>ex. extract_massive_content (scenario_env (\<lambda>u. Inr (Some long_text)) w) quiet_web
           (quiet_social query) empty_websailor_result sid s
         = (Inr ex, s\<lparr>quality_scores := quality_scores s @ [50, 50],
                      total_content_chars := total_content_chars s + 25000\<rparr>)
       \<and> length (extracted_content ex) = 2
       \<and> sum_list (map doc_content_length (extracted_content ex)) = 25000"
  by (simp add: extract_massive_content_def quiet_url_tasks extract_single_content_def
      simulated_task_url simulated_task_get scenario_env_fields success_rate_of_value
      avg_content_length_of_value Let_def enumerate_simps long_text_kept long_text_quality
      long_text_length)

lemma long_pages_run:
  "\<exists>r est d c.
      collect_massive_data long_pages_env query ctx sid None s = (Inr r, after_long_run s)
    \<and> mj_estatisticas_coleta (massive_data r) = Some est
    \<and> total_fontes_web est = Some 0
    \<and> total_fontes_sociais est = Some (social_sources s + 2)
    \<and> total_caracteres_extraidos est = Some (total_content_chars s + 25000)
    \<and> mj_dados_sociais_completos (massive_data r) = Some d
    \<and> total_posts_sociais d = 2
    \<and> mj_conteudo_extraido_massivo (massive_data r) = Some c
    \<and> length (conteudo_completo c) = 2
    \<and> sum_list (map doc_content_length (conteudo_completo c)) = 25000
    \<and> dados_suficientes_para_analise (validation_results r)
        = (50000 \<le> total_content_chars s + 25000)"
proof -
  let ?e = "scenario_env (\<lambda>u. Inr (Some long_text)) (\<lambda>path mj. None)"
  define s2 where "s2 =
    s\<lparr>sources_by_provider :=
         AList.update ''duckduckgo'' 0 (AList.update ''bing'' 0 (AList.update ''serper'' 0
           (AList.update ''google'' 0 (sources_by_provider s)))),
      web_sources := 0,
      social_sources := social_sources s + 2\<rparr>"
  have s4: "after_long_run s =
              s2\<lparr>quality_scores := quality_scores s2 @ [50, 50],
                 total_content_chars := total_content_chars s2 + 25000\<rparr>"
    by (simp add: after_long_run_def s2_def)
  obtain ex where
    ex: "extract_massive_content ?e quiet_web (quiet_social query) empty_websailor_result sid s2
           = (Inr ex, after_long_run s)"
    and n: "length (extracted_content ex) = 2"
    and l: "sum_list (map doc_content_length (extracted_content ex)) = 25000"
    unfolding s4 using extraction_phase_long_pages by blast
  obtain mj where mj:
    "consolidate_massive_json ?e quiet_web (quiet_social query) empty_websailor_result ex
       query ctx sid (after_long_run s) = Inr mj"
    using consolidate_total by blast
  have cc: "collect_and_consolidate ?e query ctx sid None s = (Inr mj, after_long_run s)"
    unfolding collect_and_consolidate_def
    using mj ex
    by (simp add: then_do_def bind_run_def progress_def scenario_env_fields web_phase_quiet
        social_phase_quiet websailor_phase_quiet s2_def)
  obtain q where q: "mj_preparacao_para_analises mj = Some (consolidated_preparacao q)"
    using consolidate_fields(1) [OF mj] by blast
  obtain est where est: "mj_estatisticas_coleta mj = Some est"
    "total_fontes_web est = Some (web_sources (after_long_run s))"
    "total_fontes_sociais est = Some (social_sources (after_long_run s))"
    "total_caracteres_extraidos est = Some (total_content_chars (after_long_run s))"
    using consolidate_fields(3) [OF mj] by blast
  obtain d where d: "mj_dados_sociais_completos mj = Some d"
    "total_posts_sociais d = total_social_sources (quiet_social query)"
    using consolidate_fields(4) [OF mj] by blast
  obtain c where c: "mj_conteudo_extraido_massivo mj = Some c"
    "conteudo_completo c = extracted_content ex"
    using consolidate_fields(5) [OF mj] by blast
  have "viabilizar (get_or (mj_preparacao_para_analises mj) []) modulos_possiveis [] =
          Inr [''avatar_ultra_detalhado'', ''drivers_mentais_customizados'',
               ''predicoes_futuro'', ''posicionamento_estrategico'']"
    unfolding q by (simp add: get_or_def viabilizar_consolidated)
  from validate_closed_form [OF this] obtain v where
    v: "validate_massive_data mj = Inr v"
       "dados_suficientes_para_analise v = (50000 \<le> snapshot_total_chars mj)"
    by simp
  have t: "snapshot_total_chars mj = total_content_chars s + 25000"
    by (simp add: snapshot_total_chars_def est get_or_def after_long_run_def)
  have sv: "\<exists>p. save_massive_json ?e mj sid = Inr p"
    by (simp add: save_massive_json_def scenario_env_fields)
  then obtain p where p: "save_massive_json ?e mj sid = Inr p" by blast
  have run: "\<exists>r. collect_massive_data ?e query ctx sid None s = (Inr r, after_long_run s)
               \<and> massive_data r = mj \<and> validation_results r = v"
    unfolding collect_massive_data_def collect_try_def cc
    by (simp add: bind_run_def then_do_def progress_def p v scenario_env_fields Let_def)
  then obtain r where r: "collect_massive_data ?e query ctx sid None s = (Inr r, after_long_run s)"
    "massive_data r = mj" "validation_results r = v"
    by blast
  have "total_fontes_web est = Some 0" "total_fontes_sociais est = Some (social_sources s + 2)"
    "total_caracteres_extraidos est = Some (total_content_chars s + 25000)"
    "total_posts_sociais d = 2"
    using est d by (simp_all add: after_long_run_def quiet_social_def)
  with r est(1) d(1) c n l v(2) t show ?thesis
    unfolding long_pages_env_def by auto
qed

text \<open>
  Claim C4, evaluated on the code. The module holds one collector
  (\<^verbatim>\<open>massive_data_collector\<close>), \<^verbatim>\<open>__init__\<close> is the only place that sets the
  statistics to zero, and \<^verbatim>\<open>collect_massive_data\<close> does not reset them. Two runs
  of that collector, one after the other, with the same collaborators: each finds
  two social sources and extracts two pages of 12500 characters. The first run
  reports 2 social sources and 25000 characters, and a volume that is not
  sufficient. The second run starts from the statistics the first one left: its
  snapshot lists 2 social posts and 2 pages of 25000 characters in all, and
  reports 4 social sources and 50000 characters, and a sufficient volume; the
  list of quality scores has four entries. Only the count of web sources, which
  is assigned and not added to, is the run's own.
\<close>

theorem statistics_carry_over_between_runs:
  "\<exists>r1 s1 r2 s2 est1 est2 d2 c2.
      collect_massive_data long_pages_env ''mercado'' JNull ''run-0001'' None init_stats
        = (Inr r1, s1)
    \<and> collect_massive_data long_pages_env ''mercado'' JNull ''run-0002'' None s1
        = (Inr r2, s2)
    \<and> social_sources s1 = 2 \<and> total_content_chars s1 = 25000
    \<and> quality_scores s1 = [50, 50]
    \<and> social_sources s2 = 4 \<and> total_content_chars s2 = 50000
    \<and> quality_scores s2 = [50, 50, 50, 50]
    \<and> web_sources s2 = 0
    \<and> mj_estatisticas_coleta (massive_data r1) = Some est1
    \<and> total_fontes_sociais est1 = Some 2
    \<and> total_caracteres_extraidos est1 = Some 25000
    \<and> \<not> dados_suficientes_para_analise (validation_results r1)
    \<and> mj_dados_sociais_completos (massive_data r2) = Some d2
    \<and> total_posts_sociais d2 = 2
    \<and> mj_conteudo_extraido_massivo (massive_data r2) = Some c2
    \<and> length (conteudo_completo c2) = 2
    \<and> sum_list (map doc_content_length (conteudo_completo c2)) = 25000
    \<and> mj_estatisticas_coleta (massive_data r2) = Some est2
    \<and> total_fontes_sociais est2 = Some 4
    \<and> total_caracteres_extraidos est2 = Some 50000
    \<and> dados_suficientes_para_analise (validation_results r2)"
proof -
  define s1 where "s1 = after_long_run init_stats"
  have s1: "social_sources s1 = 2" "total_content_chars s1 = 25000" "quality_scores s1 = [50, 50]"
    by (simp_all add: s1_def after_long_run_def init_stats_def)
  have s2: "social_sources (after_long_run s1) = 4" "total_content_chars (after_long_run s1) = 50000"
    "quality_scores (after_long_run s1) = [50, 50, 50, 50]" "web_sources (after_long_run s1) = 0"
    by (simp_all add: s1_def after_long_run_def init_stats_def)
  from long_pages_run [of "''mercado''" JNull "''run-0001''" init_stats]
  obtain r1 est1 where
    r1: "collect_massive_data long_pages_env ''mercado'' JNull ''run-0001'' None init_stats
           = (Inr r1, s1)"
      "mj_estatisticas_coleta (massive_data r1) = Some est1"
      "total_fontes_sociais est1 = Some 2"
      "total_caracteres_extraidos est1 = Some 25000"
      "\<not> dados_suficientes_para_analise (validation_results r1)"
    unfolding s1_def by (auto simp add: init_stats_def)
  from long_pages_run [of "''mercado''" JNull "''run-0002''" s1]
  obtain r2 est2 d2 c2 where
    r2: "collect_massive_data long_pages_env ''mercado'' JNull ''run-0002'' None s1
           = (Inr r2, after_long_run s1)"
      "mj_estatisticas_coleta (massive_data r2) = Some est2"
      "total_fontes_sociais est2 = Some 4"
      "total_caracteres_extraidos est2 = Some 50000"
      "mj_dados_sociais_completos (massive_data r2) = Some d2"
      "total_posts_sociais d2 = 2"
      "mj_conteudo_extraido_massivo (massive_data r2) = Some c2"
      "length (conteudo_completo c2) = 2"
      "sum_list (map doc_content_length (conteudo_completo c2)) = 25000"
      "dados_suficientes_para_analise (validation_results r2)"
    by (auto simp add: s1)
  from r1 r2 s1 s2 show ?thesis
    by blast
qed

end
